theory Spec2Isabelle
  imports Complex_Main
begin

section \<open>Numbers and strings\<close>

text \<open>
  The application is one React component, \<^verbatim>\<open>App\<close> in \<^verbatim>\<open>src/App.tsx\<close>. A finite
  JavaScript number is modelled as a real number (every finite double is one); \<open>NaN\<close> is
  kept as a value of its own, since \<^verbatim>\<open>Math.sqrt\<close> and \<^verbatim>\<open>parseFloat\<close> can produce it. The
  infinities are left out: the code divides by the constants 180, 2 and 1000 only.
  Strings are lists of 8-bit characters.

  The arithmetic of the calculation is given twice. The operations \<open>num_times\<close>,
  \<open>num_divide\<close>, \<open>Math_sqrt\<close> and \<open>Math_atan2\<close> of this section are exact: they say what
  the formulas of the code mean. The operations of the section on double precision
  round every result to the nearest double, as the JavaScript operators do.
\<close>

datatype number = NaN | Num real

fun num_times :: "number \<Rightarrow> number \<Rightarrow> number" where
  "num_times (Num x) (Num y) = Num (x * y)"
| "num_times _ _ = NaN"

fun num_divide :: "number \<Rightarrow> number \<Rightarrow> number" where
  "num_divide (Num x) (Num y) = Num (x / y)"
| "num_divide _ _ = NaN"

text \<open>\<^verbatim>\<open>Math.sqrt\<close>: \<^verbatim>\<open>NaN\<close> on a negative argument.\<close>

definition Math_sqrt :: "real \<Rightarrow> number" where
  "Math_sqrt x = (if x < 0 then NaN else Num (sqrt x))"

text \<open>The two-argument arctangent, the angle of the point \<open>(x, y)\<close> in \<open>(-\<pi>, \<pi>]\<close>.\<close>

definition atan2 :: "real \<Rightarrow> real \<Rightarrow> real" where
  "atan2 y x =
     (if 0 < x then arctan (y / x)
      else if x < 0 then (if 0 \<le> y then arctan (y / x) + pi else arctan (y / x) - pi)
      else if 0 < y then pi / 2
      else if y < 0 then - pi / 2
      else 0)"

fun Math_atan2 :: "number \<Rightarrow> number \<Rightarrow> number" where
  "Math_atan2 (Num y) (Num x) = Num (atan2 y x)"
| "Math_atan2 _ _ = NaN"

definition digit_char :: "nat \<Rightarrow> char" where
  "digit_char d = ''0123456789'' ! d"

function decimal_digits :: "nat \<Rightarrow> string" where
  "decimal_digits n =
     (if n < 10 then [digit_char n] else decimal_digits (n div 10) @ [digit_char (n mod 10)])"
  by pat_completeness auto
termination
  by (relation "measure id") auto

declare decimal_digits.simps [simp del]

text \<open>
  \<^verbatim>\<open>Number.prototype.toFixed\<close> after ECMA-262: with \<open>n\<close> the integer nearest to
  \<open>x * 10^f\<close> (the larger one of two), the digits of \<open>n\<close>, padded with zeros to
  \<open>f + 1\<close> digits, with a point before the last \<open>f\<close> of them; a negative \<open>x\<close> is
  printed as \<^verbatim>\<open>-\<close> and the digits of \<open>- x\<close>. The standard prints a number of magnitude
  \<open>10^21\<close> or more in exponent notation, which is not modelled: \<open>toFixed\<close> stands for
  the source's function on numbers below that.
\<close>

definition toFixed_digits :: "nat \<Rightarrow> nat \<Rightarrow> string" where
  "toFixed_digits f n =
     (let m = decimal_digits n in
      if f = 0 then m
      else
        let m = (if length m \<le> f then replicate (f + 1 - length m) CHR ''0'' @ m else m);
            k = length m
        in take (k - f) m @ ''.'' @ drop (k - f) m)"

definition toFixed :: "nat \<Rightarrow> number \<Rightarrow> string" where
  "toFixed f v =
     (case v of
        NaN \<Rightarrow> ''NaN''
      | Num x \<Rightarrow>
          (if x < 0 then ''-'' @ toFixed_digits f (nat \<lfloor>- x * 10 ^ f + 1 / 2\<rfloor>)
           else toFixed_digits f (nat \<lfloor>x * 10 ^ f + 1 / 2\<rfloor>)))"

text \<open>
  \<^verbatim>\<open>parseFloat\<close> on the strings that reach it here: an optional sign, digits, and an
  optional point with digits; whatever follows is ignored, and a string with no digit
  gives \<^verbatim>\<open>NaN\<close>. Leading white space, exponents and \<^verbatim>\<open>Infinity\<close> are not modelled.
\<close>

definition is_digit :: "char \<Rightarrow> bool" where
  "is_digit c = (c \<in> set ''0123456789'')"

definition digit_value :: "char \<Rightarrow> nat" where
  "digit_value c = of_char c - 48"

definition digits_value :: "string \<Rightarrow> nat" where
  "digits_value s = foldl (\<lambda>acc c. acc * 10 + digit_value c) 0 s"

definition strip_sign :: "string \<Rightarrow> bool \<times> string" where
  "strip_sign s =
     (case s of
        [] \<Rightarrow> (False, [])
      | c # t \<Rightarrow>
          if c = CHR ''-'' then (True, t) else if c = CHR ''+'' then (False, t) else (False, s))"

definition parse_unsigned :: "string \<Rightarrow> real option" where
  "parse_unsigned r =
     (let ip = takeWhile is_digit r;
          fp = (case dropWhile is_digit r of
                  [] \<Rightarrow> []
                | c # t \<Rightarrow> if c = CHR ''.'' then takeWhile is_digit t else [])
      in if ip = [] \<and> fp = [] then None
         else Some (real (digits_value ip) + real (digits_value fp) / 10 ^ length fp))"

definition parseFloat :: "string \<Rightarrow> number" where
  "parseFloat s =
     (case strip_sign s of
        (neg, r) \<Rightarrow>
          (case parse_unsigned r of
             None \<Rightarrow> NaN
           | Some v \<Rightarrow> Num (if neg then - v else v)))"

text \<open>
  The string of a number inside a template literal (\<^verbatim>\<open>Number::toString\<close>). The
  numbers printed by this program are the emission factors and a distance that was
  rounded to two decimals, so the model prints the shortest of the forms with no, one
  or two decimals that is exact, and two decimals otherwise; for a number with more
  decimals JavaScript would print more of them.
\<close>

definition Number_toString :: "number \<Rightarrow> string" where
  "Number_toString v =
     (case v of
        NaN \<Rightarrow> ''NaN''
      | Num x \<Rightarrow>
          if x = of_int \<lfloor>x\<rfloor> then toFixed 0 v
          else if x * 10 = of_int \<lfloor>x * 10\<rfloor> then toFixed 1 v
          else toFixed 2 v)"

text \<open>A string or \<^verbatim>\<open>undefined\<close> inside a template literal.\<close>

definition js_string :: "string option \<Rightarrow> string" where
  "js_string v = (case v of None \<Rightarrow> ''undefined'' | Some s \<Rightarrow> s)"

text \<open>\<^verbatim>\<open>String.prototype.toLowerCase\<close>, on ASCII strings.\<close>

definition lower_char :: "char \<Rightarrow> char" where
  "lower_char c =
     (case map_of (zip ''ABCDEFGHIJKLMNOPQRSTUVWXYZ'' ''abcdefghijklmnopqrstuvwxyz'') c of
        None \<Rightarrow> c
      | Some l \<Rightarrow> l)"

definition toLowerCase :: "string \<Rightarrow> string" where
  "toLowerCase s = map lower_char s"

text \<open>
  What rounding to \<open>f\<close> decimal places means: the nearest multiple of \<open>10^(-f)\<close>, a
  tie going away from zero.
\<close>

definition round_places :: "nat \<Rightarrow> real \<Rightarrow> real" where
  "round_places f x =
     (if x < 0 then - (real_of_int \<lfloor>- x * 10 ^ f + 1 / 2\<rfloor> / 10 ^ f)
      else real_of_int \<lfloor>x * 10 ^ f + 1 / 2\<rfloor> / 10 ^ f)"

section \<open>Double-precision arithmetic\<close>

text \<open>
  A JavaScript number is an IEEE 754 binary64 value, and every operator rounds its exact
  result to the nearest such value, a tie going to the even significand. \<open>fl x\<close> is
  that rounding for a real \<open>x\<close>: with \<open>e = exponent x\<close>, the integer with
  \<open>2^e \<le> \<bar>x\<bar> < 2^(e + 1)\<close>, it is the multiple of \<open>2^(e - 52)\<close> nearest to \<open>x\<close>. The
  range of the exponent is not modelled (no overflow to infinity, no subnormal
  numbers): the numbers of the calculation are far inside it.
\<close>

fun bit_length :: "nat \<Rightarrow> nat" where
  "bit_length n = (if n = 0 then 0 else Suc (bit_length (n div 2)))"

declare bit_length.simps [simp del]

definition pow2 :: "int \<Rightarrow> real" where
  "pow2 e = (if 0 \<le> e then 2 ^ nat e else 1 / 2 ^ nat (- e))"

definition exponent :: "real \<Rightarrow> int" where
  "exponent x =
     (if 1 \<le> \<bar>x\<bar> then int (bit_length (nat \<lfloor>\<bar>x\<bar>\<rfloor>)) - 1
      else - int (bit_length (nat (\<lceil>1 / \<bar>x\<bar>\<rceil> - 1))))"

definition round_even :: "real \<Rightarrow> int" where
  "round_even y =
     (let f = \<lfloor>y\<rfloor>; r = y - of_int f
      in if r < 1 / 2 then f else if 1 / 2 < r then f + 1 else if even f then f else f + 1)"

definition fl :: "real \<Rightarrow> real" where
  "fl x =
     (if x = 0 then 0
      else of_int (round_even (x / pow2 (exponent x - 52))) * pow2 (exponent x - 52))"

text \<open>The operators \<^verbatim>\<open>+\<close>, \<^verbatim>\<open>-\<close>, \<^verbatim>\<open>*\<close> and \<^verbatim>\<open>/\<close> on doubles; \<^verbatim>\<open>NaN\<close> is passed on.\<close>

definition ieee_plus :: "number \<Rightarrow> number \<Rightarrow> number" where
  "ieee_plus x y = (case (x, y) of (Num a, Num b) \<Rightarrow> Num (fl (a + b)) | _ \<Rightarrow> NaN)"

definition ieee_minus :: "number \<Rightarrow> number \<Rightarrow> number" where
  "ieee_minus x y = (case (x, y) of (Num a, Num b) \<Rightarrow> Num (fl (a - b)) | _ \<Rightarrow> NaN)"

definition ieee_times :: "number \<Rightarrow> number \<Rightarrow> number" where
  "ieee_times x y = (case (x, y) of (Num a, Num b) \<Rightarrow> Num (fl (a * b)) | _ \<Rightarrow> NaN)"

definition ieee_divide :: "number \<Rightarrow> number \<Rightarrow> number" where
  "ieee_divide x y = (case (x, y) of (Num a, Num b) \<Rightarrow> Num (fl (a / b)) | _ \<Rightarrow> NaN)"

text \<open>\<^verbatim>\<open>Math.PI\<close>, the double nearest to \<open>\<pi>\<close>: 3.141592653589793.\<close>

definition Math_PI :: real where
  "Math_PI = 884279719003555 / 2 ^ 48"

text \<open>
  \<^verbatim>\<open>Math.sin\<close>, \<^verbatim>\<open>Math.cos\<close> and \<^verbatim>\<open>Math.atan2\<close> belong to the JavaScript engine, which
  the standard leaves free in their last digits. They are parameters of the
  double-precision calculation: a library gives, for finite arguments, a finite result.
  \<^verbatim>\<open>Math.sqrt\<close> is fixed by the standard: \<^verbatim>\<open>NaN\<close> on a negative argument, and the
  rounded square root otherwise.
\<close>

record libm =
  lib_sin :: "real \<Rightarrow> real"
  lib_cos :: "real \<Rightarrow> real"
  lib_atan2 :: "real \<Rightarrow> real \<Rightarrow> real"

definition Math_sin_double :: "libm \<Rightarrow> number \<Rightarrow> number" where
  "Math_sin_double lib x = (case x of NaN \<Rightarrow> NaN | Num a \<Rightarrow> Num (lib_sin lib a))"

definition Math_cos_double :: "libm \<Rightarrow> number \<Rightarrow> number" where
  "Math_cos_double lib x = (case x of NaN \<Rightarrow> NaN | Num a \<Rightarrow> Num (lib_cos lib a))"

definition Math_atan2_double :: "libm \<Rightarrow> number \<Rightarrow> number \<Rightarrow> number" where
  "Math_atan2_double lib y x =
     (case (y, x) of (Num b, Num a) \<Rightarrow> Num (lib_atan2 lib b a) | _ \<Rightarrow> NaN)"

definition Math_sqrt_double :: "number \<Rightarrow> number" where
  "Math_sqrt_double x =
     (case x of NaN \<Rightarrow> NaN | Num a \<Rightarrow> if a < 0 then NaN else Num (fl (sqrt a)))"

text \<open>\<^verbatim>\<open>parseFloat\<close> gives the double nearest to the decimal number it reads.\<close>

definition parseFloat_double :: "string \<Rightarrow> number" where
  "parseFloat_double s = (case parseFloat s of NaN \<Rightarrow> NaN | Num x \<Rightarrow> Num (fl x))"

section \<open>Data model\<close>

record Location =
  lat :: real
  lng :: real
  address :: string

record EmissionResult =
  distance :: number
  emissions :: number
  transportType :: string
  aiFeedback :: "string option"

text \<open>
  \<^verbatim>\<open>interface TransitInfo\<close>. The four required fields are copied from the directions
  response without a check, so at run time each holds a string or \<^verbatim>\<open>undefined\<close>
  (\<open>None\<close>); the two walking fields are absent (\<open>None\<close>) or a string.
\<close>

record TransitInfo =
  mode :: "string option"
  departure_stop :: "string option"
  arrival_stop :: "string option"
  transit_distance :: "string option"
  walking_before :: "string option"
  walking_after :: "string option"

datatype icon = Car | Zap | Bus

text \<open>\<^verbatim>\<open>interface TransportType\<close>; the field \<^verbatim>\<open>id\<close> is written \<open>id'\<close>.\<close>

record TransportType =
  id' :: string
  name :: string
  emissionFactor :: real
  icon :: icon

text \<open>The state of the component, one field for each \<^verbatim>\<open>useState\<close>.\<close>

record app_state =
  startLocation :: "Location option"
  endLocation :: "Location option"
  isCalculating :: bool
  result :: "EmissionResult option"
  isSelectingStart :: bool
  startAddress :: string
  endAddress :: string
  isLoadingAI :: bool
  error :: "string option"
  selectedTransportType :: string

text \<open>
  An awaited call to an outside service (\<^verbatim>\<open>fetch\<close> and \<^verbatim>\<open>response.json()\<close>, or the
  text generation): it throws, or it yields a value.
\<close>

datatype 'a awaited = Threw | Resolved 'a

datatype js_error = TypeError | Rejected

section \<open>Transport profiles\<close>

definition transportTypes :: "TransportType list" where
  "transportTypes =
     [\<lparr>id' = ''gas-car'', name = ''Gas Car'', emissionFactor = 170, icon = Car\<rparr>,
      \<lparr>id' = ''electric-car'', name = ''Electric Car'', emissionFactor = 128, icon = Zap\<rparr>,
      \<lparr>id' = ''bus'', name = ''Bus'', emissionFactor = 31, icon = Bus\<rparr>]"

text \<open>
  \<^verbatim>\<open>transportTypes.find(type => type.id === selectedTransportType) || transportTypes[0]\<close>.
  \<^verbatim>\<open>find\<close> gives \<^verbatim>\<open>undefined\<close> (here \<open>None\<close>) when no entry matches, and an
  object is always truthy, so \<^verbatim>\<open>||\<close> takes its right operand exactly then.
\<close>

definition getSelectedTransportType :: "string \<Rightarrow> TransportType" where
  "getSelectedTransportType selected =
     (case find (\<lambda>type. id' type = selected) transportTypes of
        Some type \<Rightarrow> type
      | None \<Rightarrow> transportTypes ! 0)"

section \<open>Reverse geocoding\<close>

text \<open>
  The geocoding answer, as far as the code reads it. A field the code dereferences is
  optional: reading a property of \<^verbatim>\<open>undefined\<close> throws a \<^verbatim>\<open>TypeError\<close>. A result
  is taken to carry its formatted address.
\<close>

record geocode_result =
  formatted_address :: string

record geocode_obj =
  geo_status :: "string option"
  geo_results :: "geocode_result list option"

definition location_at :: "real \<Rightarrow> real \<Rightarrow> string" where
  "location_at latitude longitude =
     ''Location at '' @ toFixed 4 (Num latitude) @ '', '' @ toFixed 4 (Num longitude)"

text \<open>
  The body of the \<^verbatim>\<open>try\<close> block of \<^verbatim>\<open>getAddressFromCoordinates\<close>; its parameters
  \<^verbatim>\<open>lat\<close> and \<^verbatim>\<open>lng\<close> are written out, the short names being the fields of
  \<open>Location\<close>.
\<close>

definition getAddressFromCoordinates_try ::
  "geocode_obj awaited \<Rightarrow> real \<Rightarrow> real \<Rightarrow> js_error + string" where
  "getAddressFromCoordinates_try response latitude longitude =
     (case response of
        Threw \<Rightarrow> Inl Rejected
      | Resolved data \<Rightarrow>
          if geo_status data = Some ''OK'' then
            (case geo_results data of
               None \<Rightarrow> Inl TypeError
             | Some results \<Rightarrow>
                 if length results > 0 then Inr (formatted_address (results ! 0))
                 else Inr (location_at latitude longitude))
          else Inr (location_at latitude longitude))"

definition getAddressFromCoordinates ::
  "(real \<Rightarrow> real \<Rightarrow> geocode_obj awaited) \<Rightarrow> real \<Rightarrow> real \<Rightarrow> string" where
  "getAddressFromCoordinates fetch_geocode latitude longitude =
     (case getAddressFromCoordinates_try (fetch_geocode latitude longitude) latitude longitude of
        Inr a \<Rightarrow> a
      | Inl e \<Rightarrow> location_at latitude longitude)"

section \<open>Directions and the transit itinerary\<close>

text \<open>
  The directions answer, as far as \<^verbatim>\<open>getRouteData\<close> reads it. Every object the code
  reads a property of is optional (\<open>None\<close> is \<^verbatim>\<open>undefined\<close>, and reading a property
  of it throws a \<^verbatim>\<open>TypeError\<close>); so is every string it copies. The elements of
  the arrays are taken to be objects.
\<close>

record text_obj =
  obj_text :: "string option"

record name_obj =
  obj_name :: "string option"

record line_obj =
  line_vehicle :: "name_obj option"

record transit_obj =
  td_line :: "line_obj option"
  td_departure_stop :: "name_obj option"
  td_arrival_stop :: "name_obj option"

record step_obj =
  step_transit_details :: "transit_obj option"
  step_travel_mode :: "string option"
  step_distance :: "text_obj option"
  step_duration :: "text_obj option"

record leg_obj =
  leg_steps :: "step_obj list option"

record route_obj =
  route_legs :: "leg_obj list option"

record directions_obj =
  dir_status :: "string option"
  dir_routes :: "route_obj list option"

definition and_then :: "js_error + 'a \<Rightarrow> ('a \<Rightarrow> js_error + 'b) \<Rightarrow> js_error + 'b" where
  "and_then r f = (case r of Inl e \<Rightarrow> Inl e | Inr x \<Rightarrow> f x)"

text \<open>The object a property is about to be read of.\<close>

definition deref :: "'a option \<Rightarrow> js_error + 'a" where
  "deref v = (case v of None \<Rightarrow> Inl TypeError | Some x \<Rightarrow> Inr x)"

text \<open>
  The test \<^verbatim>\<open>w.travel_mode.toLowerCase() === 'walking'\<close> on a neighbouring step
  \<open>w\<close> and, when it holds, the text
  \<^verbatim>\<open>`${w.distance.text} (Duration: ${w.duration.text})`\<close>.
\<close>

definition walking :: "step_obj \<Rightarrow> js_error + string option" where
  "walking w =
     and_then (deref (step_travel_mode w)) (\<lambda>travel_mode.
       if toLowerCase travel_mode = ''walking'' then
         and_then (deref (step_distance w)) (\<lambda>distance.
         and_then (deref (step_duration w)) (\<lambda>duration.
           Inr (Some (js_string (obj_text distance) @ '' (Duration: '' @
                      js_string (obj_text duration) @ '')''))))
       else Inr None)"

text \<open>The body of the inner loop of \<^verbatim>\<open>getRouteData\<close>, for \<open>stepIndex < length steps\<close>.\<close>

definition step_body ::
  "step_obj list \<Rightarrow> nat \<Rightarrow> TransitInfo list \<Rightarrow> js_error + TransitInfo list" where
  "step_body steps stepIndex travelData =
     (let step = steps ! stepIndex in
      case step_transit_details step of
        None \<Rightarrow> Inr travelData
      | Some transit \<Rightarrow>
          and_then (deref (td_line transit)) (\<lambda>line.
          and_then (deref (line_vehicle line)) (\<lambda>vehicle.
          and_then (deref (td_departure_stop transit)) (\<lambda>departure.
          and_then (deref (td_arrival_stop transit)) (\<lambda>arrival.
          and_then (deref (step_distance step)) (\<lambda>distance.
          and_then (if stepIndex > 0 then walking (steps ! (stepIndex - 1)) else Inr None)
            (\<lambda>walkingBefore.
          and_then (if stepIndex < length steps - 1 then walking (steps ! (stepIndex + 1))
                    else Inr None)
            (\<lambda>walkingAfter.
          Inr (travelData @
            [\<lparr>mode = obj_name vehicle,
              departure_stop = obj_name departure,
              arrival_stop = obj_name arrival,
              transit_distance = obj_text distance,
              walking_before = walkingBefore,
              walking_after = walkingAfter\<rparr>])))))))))"

text \<open>\<^verbatim>\<open>for (let stepIndex = 0; stepIndex < leg.steps.length; stepIndex++)\<close>\<close>

function steps_loop ::
  "step_obj list \<Rightarrow> nat \<Rightarrow> TransitInfo list \<Rightarrow> js_error + TransitInfo list" where
  "steps_loop steps stepIndex travelData =
     (if stepIndex < length steps then
        (case step_body steps stepIndex travelData of
           Inl e \<Rightarrow> Inl e
         | Inr travelData' \<Rightarrow> steps_loop steps (stepIndex + 1) travelData')
      else Inr travelData)"
  by pat_completeness auto
termination
  by (relation "measure (\<lambda>(steps, stepIndex, travelData). length steps - stepIndex)") auto

declare steps_loop.simps [simp del]

text \<open>\<^verbatim>\<open>for (const leg of route.legs)\<close>\<close>

fun legs_loop :: "leg_obj list \<Rightarrow> TransitInfo list \<Rightarrow> js_error + TransitInfo list" where
  "legs_loop [] travelData = Inr travelData"
| "legs_loop (leg # legs) travelData =
     (case leg_steps leg of
        None \<Rightarrow> Inl TypeError
      | Some steps \<Rightarrow>
          (case steps_loop steps 0 travelData of
             Inl e \<Rightarrow> Inl e
           | Inr travelData' \<Rightarrow> legs_loop legs travelData'))"

text \<open>
  The body of the \<^verbatim>\<open>try\<close> block of \<^verbatim>\<open>getRouteData\<close>; \<open>None\<close> is the \<^verbatim>\<open>null\<close> it
  returns.
\<close>

definition getRouteData_try :: "directions_obj awaited \<Rightarrow> js_error + TransitInfo list option" where
  "getRouteData_try response =
     (case response of
        Threw \<Rightarrow> Inl Rejected
      | Resolved directions \<Rightarrow>
          if dir_status directions \<noteq> Some ''OK'' then Inr None
          else
            (case dir_routes directions of
               None \<Rightarrow> Inr None
             | Some routes \<Rightarrow>
                 if length routes = 0 then Inr None
                 else
                   and_then (deref (route_legs (routes ! 0))) (\<lambda>legs.
                   and_then (legs_loop legs []) (\<lambda>travelData.
                     Inr (if length travelData > 0 then Some travelData else None)))))"

definition getRouteData ::
  "(Location \<Rightarrow> Location \<Rightarrow> directions_obj awaited) \<Rightarrow> Location \<Rightarrow> Location \<Rightarrow>
     TransitInfo list option" where
  "getRouteData fetch_directions origin destination =
     (case getRouteData_try (fetch_directions origin destination) of
        Inr travelData \<Rightarrow> travelData
      | Inl e \<Rightarrow> None)"

subsection \<open>The itinerary as the specification words it\<close>

text \<open>
  One segment for each step that carries transit details, in the order of the steps;
  the walking text before it comes from the step just before it in the same leg, the
  walking text after it from the step just after it in the same leg, when that step is
  a walking step. Each leg starts with no step before it.
\<close>

definition is_walking_step :: "step_obj \<Rightarrow> bool" where
  "is_walking_step w =
     (case step_travel_mode w of None \<Rightarrow> False | Some m \<Rightarrow> toLowerCase m = ''walking'')"

definition walking_text :: "step_obj \<Rightarrow> string" where
  "walking_text w =
     js_string (Option.bind (step_distance w) obj_text) @ '' (Duration: '' @
     js_string (Option.bind (step_duration w) obj_text) @ '')''"

definition adjacent_walk :: "step_obj option \<Rightarrow> string option" where
  "adjacent_walk neighbour =
     (case neighbour of
        None \<Rightarrow> None
      | Some w \<Rightarrow> if is_walking_step w then Some (walking_text w) else None)"

definition segment_spec :: "step_obj option \<Rightarrow> step_obj \<Rightarrow> transit_obj \<Rightarrow> step_obj option \<Rightarrow> TransitInfo" where
  "segment_spec previous step transit following =
     \<lparr>mode = Option.bind (td_line transit) (\<lambda>l. Option.bind (line_vehicle l) obj_name),
      departure_stop = Option.bind (td_departure_stop transit) obj_name,
      arrival_stop = Option.bind (td_arrival_stop transit) obj_name,
      transit_distance = Option.bind (step_distance step) obj_text,
      walking_before = adjacent_walk previous,
      walking_after = adjacent_walk following\<rparr>"

fun leg_segments_spec :: "step_obj option \<Rightarrow> step_obj list \<Rightarrow> TransitInfo list" where
  "leg_segments_spec previous [] = []"
| "leg_segments_spec previous (step # rest) =
     (case step_transit_details step of
        None \<Rightarrow> []
      | Some transit \<Rightarrow>
          [segment_spec previous step transit (case rest of [] \<Rightarrow> None | following # _ \<Rightarrow> Some following)])
     @ leg_segments_spec (Some step) rest"

definition itinerary_spec :: "leg_obj list \<Rightarrow> TransitInfo list" where
  "itinerary_spec legs =
     concat (map (\<lambda>leg. leg_segments_spec None (case leg_steps leg of None \<Rightarrow> [] | Some steps \<Rightarrow> steps)) legs)"

text \<open>A well-formed answer: status \<^verbatim>\<open>OK\<close>, a route, and every field in its place.\<close>

definition wf_text :: "text_obj option \<Rightarrow> bool" where
  "wf_text t = (Option.bind t obj_text \<noteq> None)"

definition wf_name :: "name_obj option \<Rightarrow> bool" where
  "wf_name n = (Option.bind n obj_name \<noteq> None)"

definition wf_transit :: "transit_obj \<Rightarrow> bool" where
  "wf_transit t =
     (wf_name (Option.bind (td_line t) line_vehicle) \<and>
      wf_name (td_departure_stop t) \<and> wf_name (td_arrival_stop t))"

definition wf_step :: "step_obj \<Rightarrow> bool" where
  "wf_step s =
     (step_travel_mode s \<noteq> None \<and> wf_text (step_distance s) \<and> wf_text (step_duration s) \<and>
      (case step_transit_details s of None \<Rightarrow> True | Some t \<Rightarrow> wf_transit t))"

definition wf_leg :: "leg_obj \<Rightarrow> bool" where
  "wf_leg l = (case leg_steps l of None \<Rightarrow> False | Some steps \<Rightarrow> list_all wf_step steps)"

definition wf_route :: "route_obj \<Rightarrow> bool" where
  "wf_route r = (case route_legs r of None \<Rightarrow> False | Some legs \<Rightarrow> list_all wf_leg legs)"

definition well_formed :: "directions_obj \<Rightarrow> bool" where
  "well_formed d =
     (dir_status d = Some ''OK'' \<and>
      (case dir_routes d of
         None \<Rightarrow> False
       | Some routes \<Rightarrow> routes \<noteq> [] \<and> list_all wf_route routes))"

section \<open>The narrative\<close>

text \<open>
  The pictograms of the prompt, as the bytes they have in the source file, and the
  line feed.
\<close>

definition pict_mode :: string where
  "pict_mode = [CHR 0xEF, CHR 0xA3, CHR 0xBF, CHR 0xC3, CHR 0xBC, CHR 0xC3, CHR 0xB6, CHR 0xC3, CHR 0xA7]"

definition pict_distance :: string where
  "pict_distance = [CHR 0xEF, CHR 0xA3, CHR 0xBF, CHR 0xC3, CHR 0xBC, CHR 0xC3, CHR 0xAC, CHR 0xC3, CHR 0xA8]"

definition pict_departure :: string where
  "pict_departure = [CHR 0xEF, CHR 0xA3, CHR 0xBF, CHR 0xC3, CHR 0xBC, CHR 0xC3, CHR 0xB5, CHR 0xC3, CHR 0xAB]"

definition pict_arrow :: string where
  "pict_arrow =
     [CHR 0xE2, CHR 0x80, CHR 0x9A, CHR 0xC3, CHR 0xBB, CHR 0xC2, CHR 0xB0, CHR 0xC3, CHR 0x94,
      CHR 0xE2, CHR 0x88, CHR 0x8F, CHR 0xC3, CHR 0xA8]"

definition pict_walking :: string where
  "pict_walking = [CHR 0xEF, CHR 0xA3, CHR 0xBF, CHR 0xC3, CHR 0xBC, CHR 0xC3, CHR 0xB6, CHR 0xE2, CHR 0x88, CHR 0x82]"

definition pict_transport :: string where
  "pict_transport = [CHR 0xEF, CHR 0xA3, CHR 0xBF, CHR 0xC3, CHR 0xBC, CHR 0xC3, CHR 0xB6, CHR 0xC3, CHR 0xB3]"

definition pict_factor :: string where
  "pict_factor = [CHR 0xEF, CHR 0xA3, CHR 0xBF, CHR 0xC3, CHR 0xBC, CHR 0xC3, CHR 0xAD, CHR 0xC2, CHR 0xAE]"

definition nl :: string where
  "nl = [CHR 0x0A]"

text \<open>A string as a condition: \<^verbatim>\<open>undefined\<close> and the empty string are falsy.\<close>

definition truthy :: "string option \<Rightarrow> bool" where
  "truthy v = (case v of None \<Rightarrow> False | Some s \<Rightarrow> s \<noteq> [])"

text \<open>The lines one transit segment adds to the prompt.\<close>

definition step_lines :: "TransitInfo \<Rightarrow> string" where
  "step_lines step =
     pict_mode @ '' Transit Mode: '' @ js_string (mode step) @ nl @
     pict_distance @ '' Transit Distance: '' @ js_string (transit_distance step) @ nl @
     pict_departure @ '' Departure: '' @ js_string (departure_stop step) @ '' '' @ pict_arrow @
       '' Arrival: '' @ js_string (arrival_stop step) @ nl @
     (if truthy (walking_before step)
      then pict_walking @ '' Walking Before Transit: '' @ js_string (walking_before step) @ nl
      else []) @
     (if truthy (walking_after step)
      then pict_walking @ '' Walking After Transit: '' @ js_string (walking_after step) @ nl
      else []) @
     nl"

text \<open>
  The lines of the selected profile and the distance, used when there is no transit
  data. Here and below the parameters \<^verbatim>\<open>distance\<close> and \<^verbatim>\<open>transportType\<close> carry a
  prime, the plain names being fields of \<open>EmissionResult\<close>.
\<close>

definition profile_lines :: "number \<Rightarrow> TransportType \<Rightarrow> string" where
  "profile_lines distance' transportType' =
     pict_transport @ '' Transport Type: '' @ name transportType' @ nl @
     pict_distance @ '' Travel Distance: '' @ Number_toString distance' @ '' km'' @ nl @
     pict_factor @ '' Emission Factor: '' @ Number_toString (Num (emissionFactor transportType')) @
       '' grams CO2 per km'' @ nl @ nl"

definition prompt_head :: string where
  "prompt_head =
     ''Provide a detailed and insightful travel analysis based on the following information:'' @
     nl @ nl"

text \<open>
  The closing lines. \<^verbatim>\<open>((distance * transportType.emissionFactor) / 1000).toFixed(2)\<close>
  prints a double: the product and the quotient are rounded as the operators round
  them, which decides the second decimal where the exact quotient lies halfway (2.5 km
  by Gas Car are 0.425 kg exactly and print as \<^verbatim>\<open>0.42\<close>).
\<close>

definition prompt_tail :: "number \<Rightarrow> TransportType \<Rightarrow> string" where
  "prompt_tail distance' transportType' =
     ''Total Distance: '' @ Number_toString distance' @ '' km'' @ nl @
     ''Total Emissions: '' @
       toFixed 2 (ieee_divide (ieee_times distance' (Num (emissionFactor transportType'))) (Num 1000)) @
       '' kg CO2'' @ nl @ nl @
     ''Provide an overall assessment of user'' @ [CHR 0x27] @ ''s journey, considering efficiency and environmental impact based on the kilogram of CO2 emitted from using the transportation modes. Do not include infrastructure recommendations for improvement but include how can the user emit less emission by providing alternative routes or modes of transportation. Also present the kg of co2 emitted using the modes of transportation in a clean format followed by the feedback. Keep your response concise and under 200 words.''"

text \<open>The prompt \<^verbatim>\<open>getAIFeedback\<close> builds before it calls the text generation.\<close>

definition build_prompt :: "TransitInfo list option \<Rightarrow> number \<Rightarrow> TransportType \<Rightarrow> string" where
  "build_prompt travelData distance' transportType' =
     prompt_head @
     (case travelData of
        None \<Rightarrow> profile_lines distance' transportType'
      | Some steps \<Rightarrow>
          if length steps > 0 then concat (map step_lines steps)
          else profile_lines distance' transportType') @
     prompt_tail distance' transportType'"

definition apology :: string where
  "apology = ''Unable to generate AI feedback at this time. Please try again later.''"

text \<open>
  \<^verbatim>\<open>getAIFeedback\<close>. Whatever throws inside its \<^verbatim>\<open>try\<close> block (obtaining the model,
  the generation, reading the text) is the \<open>Threw\<close> of \<open>generateContent\<close>.
\<close>

definition getAIFeedback ::
  "(string \<Rightarrow> string awaited) \<Rightarrow> TransitInfo list option \<Rightarrow> number \<Rightarrow> TransportType \<Rightarrow> string" where
  "getAIFeedback generateContent travelData distance' transportType' =
     (case generateContent (build_prompt travelData distance' transportType') of
        Resolved text \<Rightarrow> text
      | Threw \<Rightarrow> apology)"

section \<open>The calculation\<close>

text \<open>
  The Haversine part of \<^verbatim>\<open>calculateEmissions\<close>, with the names of its constants. Its
  second parameter \<^verbatim>\<open>end\<close> is written \<open>finish\<close>. This is the calculation with exact
  arithmetic; the calculation on doubles follows it.
\<close>

definition haversine_a :: "Location \<Rightarrow> Location \<Rightarrow> real" where
  "haversine_a start finish =
     (let lat1 = lat start; lon1 = lng start; lat2 = lat finish; lon2 = lng finish;
          dLat = (lat2 - lat1) * pi / 180;
          dLon = (lon2 - lon1) * pi / 180
      in sin (dLat / 2) * sin (dLat / 2) +
         cos (lat1 * pi / 180) * cos (lat2 * pi / 180) * sin (dLon / 2) * sin (dLon / 2))"

definition haversine_distance :: "Location \<Rightarrow> Location \<Rightarrow> number" where
  "haversine_distance start finish =
     (let R = 6371;
          a = haversine_a start finish;
          c = num_times (Num 2) (Math_atan2 (Math_sqrt a) (Math_sqrt (1 - a)))
      in num_times (Num R) c)"

text \<open>
  \<^verbatim>\<open>calculateEmissions\<close>, with the state it reads (the selected profile) and writes
  (\<^verbatim>\<open>setIsLoadingAI\<close>).
\<close>

definition calculateEmissions ::
  "(Location \<Rightarrow> Location \<Rightarrow> directions_obj awaited) \<Rightarrow> (string \<Rightarrow> string awaited) \<Rightarrow>
     Location \<Rightarrow> Location \<Rightarrow> app_state \<Rightarrow> EmissionResult \<times> app_state" where
  "calculateEmissions fetch_directions generateContent start finish st =
     (let distance = haversine_distance start finish;
          transportType = getSelectedTransportType (selectedTransportType st);
          emissions = num_divide (num_times distance (Num (emissionFactor transportType))) (Num 1000);
          transitData = getRouteData fetch_directions start finish;
          st1 = st\<lparr>isLoadingAI := True\<rparr>;
          aiFeedback = getAIFeedback generateContent transitData
                         (parseFloat (toFixed 2 distance)) transportType;
          st2 = st1\<lparr>isLoadingAI := False\<rparr>
      in (\<lparr>distance = parseFloat (toFixed 2 distance),
           emissions = parseFloat (toFixed 2 emissions),
           transportType = name transportType,
           aiFeedback = Some aiFeedback\<rparr>, st2))"

subsection \<open>The calculation on doubles\<close>

text \<open>
  The same lines of \<^verbatim>\<open>calculateEmissions\<close> with the arithmetic of the machine: every
  operator rounds, in the order the expressions of the source are parsed
  (\<^verbatim>\<open>x * y / z\<close> is \<^verbatim>\<open>(x * y) / z\<close>, and the second summand of \<^verbatim>\<open>a\<close> is
  \<^verbatim>\<open>((cos * cos) * sin) * sin\<close>). The coordinates of the two locations are doubles.
\<close>

definition haversine_double :: "libm \<Rightarrow> Location \<Rightarrow> Location \<Rightarrow> number" where
  "haversine_double lib start finish =
     (let lat1 = Num (lat start); lon1 = Num (lng start);
          lat2 = Num (lat finish); lon2 = Num (lng finish);
          R = Num 6371;
          dLat = ieee_divide (ieee_times (ieee_minus lat2 lat1) (Num Math_PI)) (Num 180);
          dLon = ieee_divide (ieee_times (ieee_minus lon2 lon1) (Num Math_PI)) (Num 180);
          a = ieee_plus
                (ieee_times (Math_sin_double lib (ieee_divide dLat (Num 2)))
                            (Math_sin_double lib (ieee_divide dLat (Num 2))))
                (ieee_times
                   (ieee_times
                      (ieee_times
                         (Math_cos_double lib (ieee_divide (ieee_times lat1 (Num Math_PI)) (Num 180)))
                         (Math_cos_double lib (ieee_divide (ieee_times lat2 (Num Math_PI)) (Num 180))))
                      (Math_sin_double lib (ieee_divide dLon (Num 2))))
                   (Math_sin_double lib (ieee_divide dLon (Num 2))));
          c = ieee_times (Num 2)
                (Math_atan2_double lib (Math_sqrt_double a) (Math_sqrt_double (ieee_minus (Num 1) a)))
      in ieee_times R c)"

definition calculateEmissions_double ::
  "libm \<Rightarrow> (Location \<Rightarrow> Location \<Rightarrow> directions_obj awaited) \<Rightarrow> (string \<Rightarrow> string awaited) \<Rightarrow>
     Location \<Rightarrow> Location \<Rightarrow> app_state \<Rightarrow> EmissionResult \<times> app_state" where
  "calculateEmissions_double lib fetch_directions generateContent start finish st =
     (let distance = haversine_double lib start finish;
          transportType = getSelectedTransportType (selectedTransportType st);
          emissions = ieee_divide (ieee_times distance (Num (emissionFactor transportType))) (Num 1000);
          transitData = getRouteData fetch_directions start finish;
          st1 = st\<lparr>isLoadingAI := True\<rparr>;
          aiFeedback = getAIFeedback generateContent transitData
                         (parseFloat_double (toFixed 2 distance)) transportType;
          st2 = st1\<lparr>isLoadingAI := False\<rparr>
      in (\<lparr>distance = parseFloat_double (toFixed 2 distance),
           emissions = parseFloat_double (toFixed 2 emissions),
           transportType = name transportType,
           aiFeedback = Some aiFeedback\<rparr>, st2))"

text \<open>
  \<^verbatim>\<open>handleCalculate\<close>. The awaited \<^verbatim>\<open>calculateEmissions(startLocation, endLocation)\<close>
  is the parameter \<open>calc\<close>: it returns a result or throws, and leaves a state.
\<close>

definition handleCalculate ::
  "(Location \<Rightarrow> Location \<Rightarrow> app_state \<Rightarrow> (js_error + EmissionResult) \<times> app_state) \<Rightarrow>
     app_state \<Rightarrow> app_state" where
  "handleCalculate calc st =
     (case (startLocation st, endLocation st) of
        (Some start, Some finish) \<Rightarrow>
          (let st1 = st\<lparr>isCalculating := True\<rparr>;
               st2 = st1\<lparr>error := None\<rparr>;
               st4 = (case calc start finish st2 of
                        (Inr r, st3) \<Rightarrow> st3\<lparr>result := Some r\<rparr>
                      | (Inl e, st3) \<Rightarrow>
                          st3\<lparr>error := Some ''Error calculating emissions. Please try again.''\<rparr>)
           in st4\<lparr>isCalculating := False\<rparr>)
      | _ \<Rightarrow> st)"

text \<open>The calculation of the source: it always returns.\<close>

definition calculate ::
  "(Location \<Rightarrow> Location \<Rightarrow> directions_obj awaited) \<Rightarrow> (string \<Rightarrow> string awaited) \<Rightarrow>
     Location \<Rightarrow> Location \<Rightarrow> app_state \<Rightarrow> (js_error + EmissionResult) \<times> app_state" where
  "calculate fetch_directions generateContent start finish st =
     (case calculateEmissions fetch_directions generateContent start finish st of
        (r, st') \<Rightarrow> (Inr r, st'))"

subsection \<open>The distance as the specification words it\<close>

text \<open>
  The Haversine formula with Earth radius 6371 km, all angles converted from degrees
  to radians: \<open>a = sin\<^sup>2(\<Delta>lat/2) + cos(lat1) * cos(lat2) * sin\<^sup>2(\<Delta>lon/2)\<close> and the distance
  \<open>2 * R * atan2(\<surd>a, \<surd>(1 - a))\<close>.
\<close>

definition radians :: "real \<Rightarrow> real" where
  "radians deg = deg * pi / 180"

definition haversine_spec :: "real \<Rightarrow> real \<Rightarrow> real \<Rightarrow> real \<Rightarrow> real" where
  "haversine_spec lat1 lon1 lat2 lon2 =
     (let a = (sin (radians (lat2 - lat1) / 2))\<^sup>2 +
              cos (radians lat1) * cos (radians lat2) * (sin (radians (lon2 - lon1) / 2))\<^sup>2
      in 2 * 6371 * atan2 (sqrt a) (sqrt (1 - a)))"

section \<open>Conditions on the answers of the services\<close>

text \<open>
  The reverse-geocoding lookup fails: the call throws, the status is not \<^verbatim>\<open>OK\<close>, the
  results are empty, or they are missing (reading their length then throws).
\<close>

definition lookup_failed :: "geocode_obj awaited \<Rightarrow> bool" where
  "lookup_failed response =
     (case response of
        Threw \<Rightarrow> True
      | Resolved data \<Rightarrow>
          geo_status data \<noteq> Some ''OK'' \<or>
          (case geo_results data of None \<Rightarrow> True | Some results \<Rightarrow> results = []))"

text \<open>
  A route whose steps carry no transit details, and a directions answer that gives no
  itinerary: a status other than \<^verbatim>\<open>OK\<close>, no route, or a first route without transit
  details.
\<close>

definition no_transit_details :: "route_obj \<Rightarrow> bool" where
  "no_transit_details route =
     (case route_legs route of
        None \<Rightarrow> False
      | Some legs \<Rightarrow>
          list_all (\<lambda>leg. case leg_steps leg of
                            None \<Rightarrow> False
                          | Some steps \<Rightarrow> list_all (\<lambda>step. step_transit_details step = None) steps)
            legs)"

definition without_itinerary :: "directions_obj \<Rightarrow> bool" where
  "without_itinerary directions =
     (dir_status directions \<noteq> Some ''OK'' \<or>
      (case dir_routes directions of
         None \<Rightarrow> True
       | Some [] \<Rightarrow> True
       | Some (route # others) \<Rightarrow> no_transit_details route))"

text \<open>
  A step that carries transit details but lacks the line, the vehicle, a stop or the
  distance object that \<^verbatim>\<open>getRouteData\<close> reads a property of.
\<close>

definition step_broken :: "step_obj \<Rightarrow> bool" where
  "step_broken step =
     (case step_transit_details step of
        None \<Rightarrow> False
      | Some transit \<Rightarrow>
          Option.bind (td_line transit) line_vehicle = None \<or>
          td_departure_stop transit = None \<or> td_arrival_stop transit = None \<or>
          step_distance step = None)"

section \<open>Example inputs\<close>

definition example_location :: Location where
  "example_location = \<lparr>lat = 0, lng = 0, address = ''Null Island''\<rparr>"

definition example_state :: app_state where
  "example_state =
     \<lparr>startLocation = Some example_location, endLocation = Some example_location,
      isCalculating = False, result = None, isSelectingStart = True,
      startAddress = ''Null Island'', endAddress = ''Null Island'', isLoadingAI = False,
      error = None, selectedTransportType = ''bus''\<rparr>"

definition failing_calc ::
  "Location \<Rightarrow> Location \<Rightarrow> app_state \<Rightarrow> (js_error + EmissionResult) \<times> app_state" where
  "failing_calc start finish st = (Inl TypeError, st\<lparr>isLoadingAI := True\<rparr>)"

definition shown_state :: app_state where
  "shown_state =
     example_state\<lparr>result := Some \<lparr>distance = Num 1, emissions = Num 2,
       transportType = ''Bus'', aiFeedback = None\<rparr>\<rparr>"

definition fetch_example :: "real \<Rightarrow> real \<Rightarrow> geocode_obj awaited" where
  "fetch_example latitude longitude =
     (if latitude < 0 then Threw
      else if longitude < 0 then Resolved \<lparr>geo_status = Some ''ZERO_RESULTS'', geo_results = Some []\<rparr>
      else if longitude < 1 then Resolved \<lparr>geo_status = Some ''OK'', geo_results = Some []\<rparr>
      else Resolved \<lparr>geo_status = Some ''OK'', geo_results = None\<rparr>)"

definition example_walk :: step_obj where
  "example_walk =
     \<lparr>step_transit_details = None, step_travel_mode = Some ''WALKING'',
      step_distance = Some \<lparr>obj_text = Some ''0.3 km''\<rparr>,
      step_duration = Some \<lparr>obj_text = Some ''4 mins''\<rparr>\<rparr>"

definition example_ride :: step_obj where
  "example_ride =
     \<lparr>step_transit_details =
        Some \<lparr>td_line = Some \<lparr>line_vehicle = Some \<lparr>obj_name = Some ''Bus''\<rparr>\<rparr>,
              td_departure_stop = Some \<lparr>obj_name = Some ''Main St''\<rparr>,
              td_arrival_stop = Some \<lparr>obj_name = Some ''Oak St''\<rparr>\<rparr>,
      step_travel_mode = Some ''TRANSIT'',
      step_distance = Some \<lparr>obj_text = Some ''5.1 km''\<rparr>,
      step_duration = Some \<lparr>obj_text = Some ''12 mins''\<rparr>\<rparr>"

definition example_broken :: step_obj where
  "example_broken =
     example_ride\<lparr>step_transit_details :=
        Some \<lparr>td_line = None,
              td_departure_stop = Some \<lparr>obj_name = Some ''Main St''\<rparr>,
              td_arrival_stop = Some \<lparr>obj_name = Some ''Oak St''\<rparr>\<rparr>\<rparr>"

definition example_legs :: "step_obj list list \<Rightarrow> leg_obj list" where
  "example_legs stepss = map (\<lambda>steps. \<lparr>leg_steps = Some steps\<rparr>) stepss"

definition example_directions :: "step_obj list list \<Rightarrow> directions_obj" where
  "example_directions stepss =
     \<lparr>dir_status = Some ''OK'', dir_routes = Some [\<lparr>route_legs = Some (example_legs stepss)\<rparr>]\<rparr>"

definition zero_results :: directions_obj where
  "zero_results = \<lparr>dir_status = Some ''ZERO_RESULTS'', dir_routes = Some []\<rparr>"

definition example_segment :: "string option \<Rightarrow> string option \<Rightarrow> TransitInfo" where
  "example_segment walk_before walk_after =
     \<lparr>mode = Some ''Bus'', departure_stop = Some ''Main St'', arrival_stop = Some ''Oak St'',
      transit_distance = Some ''5.1 km'', walking_before = walk_before, walking_after = walk_after\<rparr>"

text \<open>
  Two locations that are nearly antipodal, \<^verbatim>\<open>{lat: 0.08, lng: -90}\<close> and
  \<^verbatim>\<open>{lat: -0.08, lng: 90}\<close>; the latitudes are the doubles the literals denote.
\<close>

definition antipodal_start :: Location where
  "antipodal_start = \<lparr>lat = fl 0.08, lng = - 90, address = ''Start''\<rparr>"

definition antipodal_finish :: Location where
  "antipodal_finish = \<lparr>lat = fl (- 0.08), lng = 90, address = ''Destination''\<rparr>"

text \<open>
  A library given by a table: the doubles nearest to the sine and the cosine at the
  four arguments that arise for these two locations. Elsewhere the table is filled
  with 0 and 1.
\<close>

definition libm_table :: libm where
  "libm_table =
     \<lparr>lib_sin = (\<lambda>x. if x = - (6439128407179665 / 2 ^ 62) then - (6439126314944476 / 2 ^ 62)
                     else if x = 884279719003555 / 2 ^ 49 then 1
                     else 0),
      lib_cos = (\<lambda>x. if \<bar>x\<bar> = 6439128407179665 / 2 ^ 62 then 9007190474743070 / 2 ^ 53 else 1),
      lib_atan2 = (\<lambda>y x. 0)\<rparr>"

section \<open>Printing and reading numbers\<close>

lemma digit_char_props:
  assumes "d < 10"
  shows "digit_value (digit_char d) = d" and "is_digit (digit_char d)"
proof -
  from assms have "d \<in> {0, 1, 2, 3, 4, 5, 6, 7, 8, 9}" by auto
  then show "digit_value (digit_char d) = d" and "is_digit (digit_char d)"
    by (auto simp: digit_value_def digit_char_def is_digit_def)
qed

lemma is_digit_not_sign: "is_digit c \<Longrightarrow> c \<noteq> CHR ''-'' \<and> c \<noteq> CHR ''+'' \<and> c \<noteq> CHR ''.''"
  by (auto simp: is_digit_def)

lemma digits_value_nil: "digits_value [] = 0"
  by (simp add: digits_value_def)

lemma digits_value_snoc: "digits_value (s @ [c]) = digits_value s * 10 + digit_value c"
  by (simp add: digits_value_def)

lemma digits_value_append:
  "digits_value (a @ b) = digits_value a * 10 ^ length b + digits_value b"
proof (induction b rule: rev_induct)
  case Nil
  then show ?case by (simp add: digits_value_def)
next
  case (snoc c b)
  have "digits_value (a @ b @ [c]) = digits_value (a @ b) * 10 + digit_value c"
    using digits_value_snoc [of "a @ b" c] by simp
  then show ?case
    by (simp add: snoc.IH digits_value_snoc algebra_simps)
qed

lemma decimal_digits_all: "list_all is_digit (decimal_digits n)"
proof (induction n rule: decimal_digits.induct)
  case (1 n)
  show ?case
  proof (cases "n < 10")
    case True
    then show ?thesis by (subst decimal_digits.simps) (simp add: digit_char_props)
  next
    case False
    with "1" show ?thesis
      by (subst decimal_digits.simps) (simp add: digit_char_props)
  qed
qed

lemma decimal_digits_nonempty: "decimal_digits n \<noteq> []"
  by (subst decimal_digits.simps) simp

lemma decimal_digits_value: "digits_value (decimal_digits n) = n"
proof (induction n rule: decimal_digits.induct)
  case (1 n)
  show ?case
  proof (cases "n < 10")
    case True
    then show ?thesis
      by (subst decimal_digits.simps) (simp add: digit_char_props digits_value_def)
  next
    case False
    with "1" show ?thesis
      by (subst decimal_digits.simps) (simp add: digits_value_snoc digit_char_props)
  qed
qed

lemma digits_value_zeros: "digits_value (replicate k CHR ''0'' @ s) = digits_value s"
proof -
  have "digits_value (replicate k CHR ''0'') = 0"
    by (induction k) (simp_all add: digits_value_def digit_value_def)
  then show ?thesis by (simp add: digits_value_append)
qed

text \<open>
  What \<open>toFixed\<close> prints: at least one digit, then, for \<open>f > 0\<close>, a point and exactly
  \<open>f\<close> digits; read as a number, the digits are \<open>n\<close>.
\<close>

lemma toFixed_digits_parse:
  fixes f n :: nat
  defines "s \<equiv> toFixed_digits f n"
  shows "\<exists>ip fp. s = ip @ (if f = 0 then [] else ''.'' @ fp) \<and> ip \<noteq> [] \<and>
           list_all is_digit ip \<and> list_all is_digit fp \<and> length fp = f \<and>
           digits_value ip * 10 ^ f + digits_value fp = n"
proof (cases "f = 0")
  case True
  show ?thesis
    unfolding s_def
    by (rule exI [of _ "decimal_digits n"], rule exI [of _ "[]"])
      (simp add: True toFixed_digits_def decimal_digits_all decimal_digits_nonempty
        decimal_digits_value digits_value_nil)
next
  case False
  define m where "m = decimal_digits n"
  define m0 where "m0 = (if length m \<le> f then replicate (f + 1 - length m) CHR ''0'' @ m else m)"
  define k where "k = length m0"
  have s: "s = take (k - f) m0 @ ''.'' @ drop (k - f) m0"
    unfolding s_def toFixed_digits_def m0_def m_def k_def using False by (simp add: Let_def)
  have z: "is_digit CHR ''0''" by (simp add: is_digit_def)
  have all: "list_all is_digit m0"
    unfolding m0_def m_def using decimal_digits_all [of n] z by (simp add: list_all_iff)
  have len: "f < k"
    unfolding k_def m0_def by auto
  have val: "digits_value m0 = n"
    unfolding m0_def m_def by (simp add: digits_value_zeros decimal_digits_value)
  let ?ip = "take (k - f) m0" and ?fp = "drop (k - f) m0"
  have "digits_value (?ip @ ?fp) = digits_value ?ip * 10 ^ length ?fp + digits_value ?fp"
    by (rule digits_value_append)
  moreover have "length ?fp = f" using len by (simp add: k_def)
  ultimately have v: "digits_value ?ip * 10 ^ f + digits_value ?fp = n"
    using val by simp
  have ne: "?ip \<noteq> []" using len by (auto simp: k_def)
  have lf: "length ?fp = f" using len by (simp add: k_def)
  have ds: "list_all is_digit ?ip" "list_all is_digit ?fp"
    using all by (auto simp: list_all_iff dest: in_set_takeD in_set_dropD)
  have "s = ?ip @ (if f = 0 then [] else ''.'' @ ?fp) \<and> ?ip \<noteq> [] \<and>
        list_all is_digit ?ip \<and> list_all is_digit ?fp \<and> length ?fp = f \<and>
        digits_value ?ip * 10 ^ f + digits_value ?fp = n"
    using s False v ne lf ds by simp
  then show ?thesis by blast
qed

lemma parse_unsigned_digits:
  assumes "ip \<noteq> []" "list_all is_digit ip" "list_all is_digit fp"
  shows "parse_unsigned (ip @ (if f = 0 then [] else ''.'' @ fp)) =
           Some (real (digits_value ip) +
                (if f = 0 then 0 else real (digits_value fp) / 10 ^ length fp))"
proof -
  have tw: "takeWhile is_digit (ip @ rest) = ip @ takeWhile is_digit rest"
    "dropWhile is_digit (ip @ rest) = dropWhile is_digit rest" for rest
    using assms(2) by (simp_all add: list_all_iff takeWhile_append2 dropWhile_append2)
  have fpw: "takeWhile is_digit fp = fp"
    using assms(3) by (simp add: list_all_iff)
  have nd: "\<not> is_digit CHR ''.''" by (simp add: is_digit_def)
  show ?thesis
    using assms(1) by (simp add: parse_unsigned_def tw fpw nd digits_value_nil)
qed

lemma strip_sign_digit: "is_digit c \<Longrightarrow> strip_sign (c # cs) = (False, c # cs)"
  using is_digit_not_sign [of c] by (simp add: strip_sign_def)

lemma strip_sign_minus: "strip_sign (CHR ''-'' # cs) = (True, cs)"
  by (simp add: strip_sign_def)

lemma parseFloat_toFixed_digits:
  "parseFloat (toFixed_digits f n) = Num (real n / 10 ^ f)"
  "parseFloat (''-'' @ toFixed_digits f n) = Num (- (real n / 10 ^ f))"
proof -
  obtain ip fp where s: "toFixed_digits f n = ip @ (if f = 0 then [] else ''.'' @ fp)"
    and ip: "ip \<noteq> []" "list_all is_digit ip" and fp: "list_all is_digit fp" "length fp = f"
    and v: "digits_value ip * 10 ^ f + digits_value fp = n"
    using toFixed_digits_parse [of f n] by blast
  obtain c cs where c: "ip = c # cs" "is_digit c" using ip by (cases ip) auto
  have pu: "parse_unsigned (toFixed_digits f n) = Some (real n / 10 ^ f)"
  proof (cases "f = 0")
    case True
    with v fp(2) have "digits_value ip = n" by (simp add: digits_value_nil)
    then show ?thesis
      using parse_unsigned_digits [OF ip fp(1), of f] s True by simp
  next
    case False
    have "real n = real (digits_value ip) * 10 ^ f + real (digits_value fp)"
      using v [symmetric] by simp
    then have "real n / 10 ^ f = real (digits_value ip) + real (digits_value fp) / 10 ^ f"
      by (simp add: field_simps)
    then show ?thesis
      using parse_unsigned_digits [OF ip fp(1), of f] s False fp(2) by simp
  qed
  have "strip_sign (toFixed_digits f n) = (False, toFixed_digits f n)"
    using strip_sign_digit [OF c(2), of "cs @ (if f = 0 then [] else ''.'' @ fp)"] s c(1)
    by simp
  then show "parseFloat (toFixed_digits f n) = Num (real n / 10 ^ f)"
    by (simp add: parseFloat_def pu)
  show "parseFloat (''-'' @ toFixed_digits f n) = Num (- (real n / 10 ^ f))"
    by (simp add: parseFloat_def strip_sign_minus pu)
qed

text \<open>Reading back what \<open>toFixed\<close> printed gives the number rounded to \<open>f\<close> places.\<close>

lemma parseFloat_toFixed: "parseFloat (toFixed f (Num x)) = Num (round_places f x)"
proof (cases "x < 0")
  case True
  then have "0 \<le> (- x) * 10 ^ f" by (intro mult_nonneg_nonneg) simp_all
  then have "0 \<le> \<lfloor>- x * 10 ^ f + 1 / 2\<rfloor>" by simp
  then show ?thesis
    using True by (simp add: toFixed_def round_places_def parseFloat_toFixed_digits(2) [simplified])
next
  case False
  then have "0 \<le> x * 10 ^ f" by (intro mult_nonneg_nonneg) simp_all
  then have "0 \<le> \<lfloor>x * 10 ^ f + 1 / 2\<rfloor>" by simp
  then show ?thesis
    using False by (simp add: toFixed_def round_places_def parseFloat_toFixed_digits(1))
qed

lemma round_places_nonneg: "0 \<le> x \<Longrightarrow> 0 \<le> round_places f x"
  by (simp add: round_places_def)

lemma round_places_near: "\<bar>round_places f x - x\<bar> \<le> 1 / (2 * 10 ^ f)"
proof -
  have fl: "\<bar>real_of_int \<lfloor>y + 1 / 2\<rfloor> - y\<bar> \<le> 1 / 2" for y :: real
    by linarith
  show ?thesis
  proof (cases "x < 0")
    case True
    have "\<bar>round_places f x - x\<bar> = \<bar>real_of_int \<lfloor>- x * 10 ^ f + 1 / 2\<rfloor> - (- x * 10 ^ f)\<bar> / 10 ^ f"
      using True by (simp add: round_places_def field_simps abs_divide)
    also have "\<dots> \<le> (1 / 2) / 10 ^ f"
      by (rule divide_right_mono [OF fl]) simp
    finally show ?thesis by simp
  next
    case False
    have "\<bar>round_places f x - x\<bar> = \<bar>real_of_int \<lfloor>x * 10 ^ f + 1 / 2\<rfloor> - x * 10 ^ f\<bar> / 10 ^ f"
      using False by (simp add: round_places_def field_simps abs_divide)
    also have "\<dots> \<le> (1 / 2) / 10 ^ f"
      by (rule divide_right_mono [OF fl]) simp
    finally show ?thesis by simp
  qed
qed

lemma replicate_numeral_Cons: "replicate (numeral k) x = x # replicate (pred_numeral k) x"
  by (simp add: numeral_eq_Suc)

section \<open>Rounding to doubles\<close>

lemma bit_length_bounds: "0 < n \<Longrightarrow> 2 ^ (bit_length n - 1) \<le> n \<and> n < 2 ^ bit_length n"
proof (induction n rule: bit_length.induct)
  case (1 n)
  show ?case
  proof (cases "n div 2 = 0")
    case True
    with "1.prems" have "n = 1" by (cases n) auto
    then show ?thesis by (simp add: bit_length.simps)
  next
    case False
    then have "0 < n div 2" by simp
    with "1.IH" "1.prems" have ih: "2 ^ (bit_length (n div 2) - 1) \<le> n div 2"
      "n div 2 < 2 ^ bit_length (n div 2)" by auto
    have pos: "0 < bit_length (n div 2)"
      using False by (subst bit_length.simps) simp
    have b: "bit_length n = Suc (bit_length (n div 2))"
      using "1.prems" by (subst bit_length.simps) simp
    have "2 ^ (bit_length n - 1) = 2 * 2 ^ (bit_length (n div 2) - 1)"
      using pos b by (cases "bit_length (n div 2)") auto
    also have "\<dots> \<le> 2 * (n div 2)" using ih(1) by simp
    also have "\<dots> \<le> n" by simp
    finally have lo: "2 ^ (bit_length n - 1) \<le> n" .
    have "n < 2 * (n div 2) + 2" by presburger
    also have "\<dots> \<le> 2 * 2 ^ bit_length (n div 2)" using ih(2) by simp
    finally have "n < 2 ^ bit_length n" by (simp add: b)
    with lo show ?thesis by simp
  qed
qed


lemma pow2_pos: "0 < pow2 e"
  by (simp add: pow2_def)

lemma pow2_Suc: "pow2 (e + 1) = 2 * pow2 e"
proof (cases "0 \<le> e")
  case True
  then show ?thesis by (simp add: pow2_def nat_add_distrib)
next
  case False
  then have "nat (- e) = Suc (nat (- (e + 1)))" by simp
  then show ?thesis using False by (simp add: pow2_def)
qed

lemma pow2_of_nat: "pow2 (int n) = 2 ^ n"
  by (simp add: pow2_def)

lemma pow2_neg_of_nat: "pow2 (- int n) = 1 / 2 ^ n"
  by (auto simp: pow2_def)

lemma pow2_mono: "d \<le> e \<Longrightarrow> pow2 d \<le> pow2 e"
proof (induction "nat (e - d)" arbitrary: e)
  case 0
  then show ?case by simp
next
  case (Suc k)
  then have "k = nat ((e - 1) - d)" "d \<le> e - 1" by simp_all
  then have "pow2 d \<le> pow2 (e - 1)" using Suc.hyps(1) by blast
  also have "\<dots> \<le> pow2 e"
    using pow2_Suc [of "e - 1"] pow2_pos [of "e - 1"] by simp
  finally show ?case .
qed

text \<open>The exponent is the one that brackets the magnitude.\<close>

lemma exponent_bounds:
  assumes "x \<noteq> 0"
  shows "pow2 (exponent x) \<le> \<bar>x\<bar> \<and> \<bar>x\<bar> < pow2 (exponent x + 1)"
proof (cases "1 \<le> \<bar>x\<bar>")
  case True
  define n where "n = nat \<lfloor>\<bar>x\<bar>\<rfloor>"
  have rn: "real n = of_int \<lfloor>\<bar>x\<bar>\<rfloor>" by (simp add: n_def)
  have "0 < n" using True by (simp add: n_def)
  moreover have "real n \<le> \<bar>x\<bar>" unfolding rn by (rule of_int_floor_le)
  moreover have "\<bar>x\<bar> < real n + 1" unfolding rn by linarith
  ultimately have n: "0 < n" "real n \<le> \<bar>x\<bar>" "\<bar>x\<bar> < real n + 1" .
  have e: "exponent x = int (bit_length n) - 1"
    using True by (simp add: exponent_def n_def)
  have b: "0 < bit_length n" using n(1) by (subst bit_length.simps) simp
  then have e': "exponent x = int (bit_length n - 1)" using e by simp
  have "pow2 (exponent x) = 2 ^ (bit_length n - 1)"
    unfolding e' by (rule pow2_of_nat)
  also have "\<dots> \<le> real n"
    using bit_length_bounds [OF n(1)] by (metis of_nat_le_iff of_nat_numeral of_nat_power)
  finally have lo: "pow2 (exponent x) \<le> \<bar>x\<bar>" using n(2) by simp
  have "exponent x + 1 = int (bit_length n)" using e by simp
  then have "pow2 (exponent x + 1) = 2 ^ bit_length n"
    by (simp add: pow2_of_nat)
  moreover have "real n + 1 \<le> 2 ^ bit_length n"
  proof -
    have "n + 1 \<le> 2 ^ bit_length n" using bit_length_bounds [OF n(1)] by simp
    then have "real (n + 1) \<le> real (2 ^ bit_length n)" by (rule of_nat_mono)
    then show ?thesis by simp
  qed
  ultimately show ?thesis using lo n(3) by simp
next
  case False
  define z where "z = 1 / \<bar>x\<bar>"
  have z: "1 < z" using False assms by (simp add: z_def)
  define m where "m = nat (\<lceil>z\<rceil> - 1)"
  have c: "2 \<le> \<lceil>z\<rceil>" using z by linarith
  have rm: "real m = of_int \<lceil>z\<rceil> - 1" using c by (simp add: m_def)
  have "0 < m" using c by (simp add: m_def)
  moreover have "real m < z" unfolding rm by linarith
  moreover have "z \<le> real m + 1" unfolding rm by linarith
  ultimately have m: "0 < m" "real m < z" "z \<le> real m + 1" .
  have e: "exponent x = - int (bit_length m)"
    using False by (simp add: exponent_def m_def z_def)
  have b: "0 < bit_length m" using m(1) by (subst bit_length.simps) simp
  have x: "\<bar>x\<bar> = 1 / z" "0 < \<bar>x\<bar>" using assms by (simp_all add: z_def)
  have "real m + 1 \<le> 2 ^ bit_length m"
  proof -
    have "m + 1 \<le> 2 ^ bit_length m" using bit_length_bounds [OF m(1)] by simp
    then have "real (m + 1) \<le> real (2 ^ bit_length m)" by (rule of_nat_mono)
    then show ?thesis by simp
  qed
  then have "z \<le> 2 ^ bit_length m" using m(3) by simp
  then have "1 / 2 ^ bit_length m \<le> 1 / z"
    using z by (intro divide_left_mono) simp_all
  then have lo: "pow2 (exponent x) \<le> \<bar>x\<bar>"
    by (simp add: e pow2_neg_of_nat x(1))
  have "(2::real) ^ (bit_length m - 1) \<le> real m"
    using bit_length_bounds [OF m(1)] by (metis of_nat_le_iff of_nat_numeral of_nat_power)
  from this m(2) have "2 ^ (bit_length m - 1) < z" by (rule order_le_less_trans)
  then have "1 / z < 1 / 2 ^ (bit_length m - 1)"
    using z by (intro divide_strict_left_mono mult_pos_pos) simp_all
  moreover have "exponent x + 1 = - int (bit_length m - 1)" using e b by simp
  ultimately have "\<bar>x\<bar> < pow2 (exponent x + 1)"
    by (simp add: pow2_neg_of_nat x(1))
  with lo show ?thesis by simp
qed

lemma exponent_unique:
  assumes "pow2 e \<le> \<bar>x\<bar>" and "\<bar>x\<bar> < pow2 (e + 1)"
  shows "exponent x = e"
proof -
  have "x \<noteq> 0" using assms(1) pow2_pos [of e] by auto
  note b = exponent_bounds [OF this]
  have "\<not> exponent x + 1 \<le> e"
  proof
    assume "exponent x + 1 \<le> e"
    then have "pow2 (exponent x + 1) \<le> pow2 e" by (rule pow2_mono)
    with b assms(1) show False by simp
  qed
  moreover have "\<not> e + 1 \<le> exponent x"
  proof
    assume "e + 1 \<le> exponent x"
    then have "pow2 (e + 1) \<le> pow2 (exponent x)" by (rule pow2_mono)
    with b assms(2) show False by simp
  qed
  ultimately show ?thesis by simp
qed

lemma round_even_near:
  assumes "\<bar>y - of_int n\<bar> < 1 / 2"
  shows "round_even y = n"
proof (cases "of_int n \<le> y")
  case True
  then have "\<lfloor>y\<rfloor> = n" using assms by linarith
  then show ?thesis using assms True by (simp add: round_even_def Let_def)
next
  case False
  then have f: "\<lfloor>y\<rfloor> = n - 1" using assms by linarith
  have "1 / 2 < y - of_int (n - 1)" using assms False by simp
  then show ?thesis using f by (simp add: round_even_def Let_def)
qed

text \<open>How a value of \<open>fl\<close> is checked: the exponent and the nearest integer are given.\<close>

lemma fl_near:
  assumes "pow2 e \<le> \<bar>x\<bar>" and "\<bar>x\<bar> < pow2 (e + 1)"
    and "\<bar>x / pow2 (e - 52) - of_int n\<bar> < 1 / 2"
  shows "fl x = of_int n * pow2 (e - 52)"
proof -
  have "x \<noteq> 0" using assms(1) pow2_pos [of e] by auto
  then show ?thesis
    by (simp add: fl_def exponent_unique [OF assms(1,2)] round_even_near [OF assms(3)])
qed

section \<open>The distance\<close>

lemma haversine_core_bounds:
  fixes p q v :: real
  defines "a \<equiv> sin ((q - p) / 2) * sin ((q - p) / 2) + cos p * cos q * sin v * sin v"
  shows "0 \<le> a \<and> a \<le> 1"
proof -
  define S where "S = (sin ((q - p) / 2))\<^sup>2"
  define h where "h = (sin v)\<^sup>2"
  define k where "k = cos p * cos q"
  have a: "a = S + k * h"
    by (simp add: a_def S_def h_def k_def power2_eq_square)
  have S: "0 \<le> S" "S \<le> 1" and h: "0 \<le> h" "h \<le> 1"
    using abs_sin_le_one [of "(q - p) / 2"] abs_sin_le_one [of v]
    by (simp_all add: S_def h_def power2_eq_square abs_square_le_1 [symmetric] power_le_one_iff abs_le_square_iff [symmetric])
  have "2 * ((q - p) / 2) = q - p" by simp
  then have "cos (q - p) = cos (2 * ((q - p) / 2))" by (simp only:)
  also have "\<dots> = 1 - 2 * S"
    unfolding S_def by (rule cos_double_sin)
  finally have "cos (q - p) = 1 - 2 * S" .
  moreover have "k = (cos (q - p) + cos (p + q)) / 2"
    using cos_times_cos [of q p] by (simp only: k_def mult.commute add.commute)
  ultimately have k: "k = (1 - 2 * S + cos (p + q)) / 2" by simp
  have c: "- 1 \<le> cos (p + q)" "cos (p + q) \<le> 1"
    by simp_all
  have "- S \<le> k"
    unfolding k using c(1) by argo
  moreover have "k \<le> 1 - S"
    unfolding k using c(2) by argo
  ultimately have kb: "- S \<le> k" "k \<le> 1 - S" .
  show ?thesis
  proof (cases "0 \<le> k")
    case True
    have "0 \<le> k * h" using True h(1) by (rule mult_nonneg_nonneg)
    moreover have "k * h \<le> k * 1" using h(2) True by (rule mult_left_mono)
    ultimately show ?thesis using a S kb by simp
  next
    case False
    then have neg: "k \<le> 0" by simp
    have "k * 1 \<le> k * h" using h(2) neg by (rule mult_left_mono_neg)
    moreover have "k * h \<le> 0" using neg h(1) by (rule mult_nonpos_nonneg)
    ultimately show ?thesis using a S kb by simp
  qed
qed

lemma haversine_a_bounds: "0 \<le> haversine_a start finish \<and> haversine_a start finish \<le> 1"
proof -
  define p where "p = lat start * pi / 180"
  define q where "q = lat finish * pi / 180"
  define v where "v = (lng finish - lng start) * pi / 180 / 2"
  have "(lat finish - lat start) * pi / 180 / 2 = (q - p) / 2"
    by (simp add: p_def q_def field_simps)
  then have "haversine_a start finish =
      sin ((q - p) / 2) * sin ((q - p) / 2) + cos p * cos q * sin v * sin v"
    unfolding haversine_a_def Let_def p_def [symmetric] q_def [symmetric] v_def [symmetric]
    by (simp only:)
  then show ?thesis
    using haversine_core_bounds [of q p v] by simp
qed

lemma haversine_a_spec:
  "haversine_a start finish =
     (sin (radians (lat finish - lat start) / 2))\<^sup>2 +
     cos (radians (lat start)) * cos (radians (lat finish)) *
       (sin (radians (lng finish - lng start) / 2))\<^sup>2"
  by (simp add: haversine_a_def radians_def Let_def power2_eq_square)

lemma haversine_a_sym: "haversine_a start finish = haversine_a finish start"
proof -
  have "(lat start - lat finish) * pi / 180 / 2 = - ((lat finish - lat start) * pi / 180 / 2)"
    "(lng start - lng finish) * pi / 180 / 2 = - ((lng finish - lng start) * pi / 180 / 2)"
    by (simp_all add: field_simps)
  then show ?thesis
    by (simp add: haversine_a_def Let_def)
qed

lemma atan2_nonneg: "0 \<le> y \<Longrightarrow> 0 \<le> x \<Longrightarrow> 0 \<le> atan2 y x"
  by (simp add: atan2_def)

lemma haversine_distance_Num:
  "haversine_distance start finish =
     Num (6371 * (2 * atan2 (sqrt (haversine_a start finish)) (sqrt (1 - haversine_a start finish))))"
  using haversine_a_bounds [of start finish]
  by (simp add: haversine_distance_def Math_sqrt_def Let_def)

lemma haversine_distance_spec:
  "haversine_distance start finish =
     Num (haversine_spec (lat start) (lng start) (lat finish) (lng finish))"
  by (simp add: haversine_distance_Num haversine_spec_def haversine_a_spec Let_def)

lemma haversine_spec_nonneg:
  fixes start finish :: Location
  shows "0 \<le> haversine_spec (lat start) (lng start) (lat finish) (lng finish)"
proof -
  have "0 \<le> atan2 (sqrt (haversine_a start finish)) (sqrt (1 - haversine_a start finish))"
    using haversine_a_bounds [of start finish] by (intro atan2_nonneg) simp_all
  then show ?thesis
    by (simp add: haversine_spec_def haversine_a_spec Let_def)
qed

text \<open>
  The distance is at most half the circumference, so \<^verbatim>\<open>toFixed\<close> prints it, and the
  emissions, in the plain decimal form modelled above.
\<close>

lemma atan2_le: "0 \<le> y \<Longrightarrow> 0 \<le> x \<Longrightarrow> atan2 y x \<le> pi / 2"
  using arctan_ubound [of "y / x"] by (simp add: atan2_def)

lemma haversine_spec_le:
  fixes start finish :: Location
  shows "haversine_spec (lat start) (lng start) (lat finish) (lng finish) \<le> 6371 * pi"
proof -
  have "atan2 (sqrt (haversine_a start finish)) (sqrt (1 - haversine_a start finish)) \<le> pi / 2"
    using haversine_a_bounds [of start finish] by (intro atan2_le) simp_all
  then show ?thesis
    by (simp add: haversine_spec_def haversine_a_spec Let_def)
qed

lemma haversine_distance_same:
  "haversine_distance \<lparr>lat = x, lng = y, address = a1\<rparr> \<lparr>lat = x, lng = y, address = a2\<rparr> = Num 0"
proof -
  have "haversine_a \<lparr>lat = x, lng = y, address = a1\<rparr> \<lparr>lat = x, lng = y, address = a2\<rparr> = 0"
    by (simp add: haversine_a_def)
  then show ?thesis
    by (simp add: haversine_distance_Num atan2_def)
qed

text \<open>
  With exact arithmetic the expressions of \<^verbatim>\<open>calculateEmissions\<close> are the Haversine
  great-circle distance with Earth radius 6371 km as the specification writes it: a
  number, never \<^verbatim>\<open>NaN\<close>, since \<open>0 \<le> a \<le> 1\<close>; non-negative; and 0 for two locations with
  the same coordinates. This is a fact about the formula. The program computes on
  doubles, where \<open>a\<close> can exceed 1: see the section on the distance on doubles.
\<close>

lemma haversine_distance_formula:
  "haversine_distance start finish =
     Num (haversine_spec (lat start) (lng start) (lat finish) (lng finish)) \<and>
   0 \<le> haversine_spec (lat start) (lng start) (lat finish) (lng finish) \<and>
   haversine_distance \<lparr>lat = x, lng = y, address = a1\<rparr> \<lparr>lat = x, lng = y, address = a2\<rparr> = Num 0"
  using haversine_distance_spec [of start finish] haversine_spec_nonneg [of start finish]
    haversine_distance_same [of x y a1 a2]
  by blast

text \<open>
  C3. The distance is symmetric: from \<open>A\<close> to \<open>B\<close> it is the distance from \<open>B\<close> to
  \<open>A\<close>.
\<close>

theorem haversine_distance_symmetric:
  "haversine_distance A B = haversine_distance B A"
  by (simp add: haversine_distance_Num haversine_a_sym [of A B])

section \<open>The distance on doubles\<close>

lemma ieee_NaN [simp]:
  "ieee_times x NaN = NaN" "ieee_times NaN y = NaN" "ieee_divide NaN y = NaN"
  "Math_atan2_double lib y NaN = NaN"
  by (simp_all add: ieee_times_def ieee_divide_def Math_atan2_double_def split: number.splits)

text \<open>The literals \<^verbatim>\<open>0.08\<close> and \<^verbatim>\<open>-0.08\<close> as doubles.\<close>

lemma double_008: "fl 0.08 = 5764607523034235 / 2 ^ 56"
  using fl_near [of "-4" "0.08" 5764607523034235] by (simp add: pow2_def)

lemma double_minus_008: "fl (- 0.08) = - (5764607523034235 / 2 ^ 56)"
  using fl_near [of "-4" "- 0.08" "- 5764607523034235"] by (simp add: pow2_def)

lemma haversine_double_near_antipodal:
  assumes sin1: "lib_sin lib (- (6439128407179665 / 2 ^ 62)) = - (6439126314944476 / 2 ^ 62)"
    and sin2: "lib_sin lib (884279719003555 / 2 ^ 49) = 1"
    and cos1: "lib_cos lib (6439128407179665 / 2 ^ 62) = 9007190474743070 / 2 ^ 53"
    and cos2: "lib_cos lib (- (6439128407179665 / 2 ^ 62)) = 9007190474743070 / 2 ^ 53"
  shows "haversine_double lib antipodal_start antipodal_finish = NaN"
proof -
  define L :: real where "L = 5764607523034235 / 2 ^ 56"
  define L2 :: real where "L2 = 5764607523034235 / 2 ^ 55"
  define P2 :: real where "P2 = 4527512161298202 / 2 ^ 53"
  define DL :: real where "DL = 6439128407179665 / 2 ^ 61"
  define H :: real where "H = 6439128407179665 / 2 ^ 62"
  define S :: real where "S = 6439126314944476 / 2 ^ 62"
  define SS :: real where "SS = 4603245307134343 / 2 ^ 71"
  define Q :: real where "Q = 4974073419394997 / 2 ^ 43"
  define PIH :: real where "PIH = 884279719003555 / 2 ^ 49"
  define P1 :: real where "P1 = 4527512161298202 / 2 ^ 54"
  define C :: real where "C = 9007190474743070 / 2 ^ 53"
  define CC :: real where "CC = 9007181694753707 / 2 ^ 53"
  define A :: real where "A = 4503599627370497 / 2 ^ 52"
  define E :: real where "E = 1 / 2 ^ 52"
  have loc: "lat antipodal_start = L" "lng antipodal_start = - 90"
    "lat antipodal_finish = - L" "lng antipodal_finish = 90"
    unfolding antipodal_start_def antipodal_finish_def L_def
    by (simp_all only: Location.select_convs double_008 double_minus_008)
  have m1: "ieee_minus (Num (- L)) (Num L) = Num (- L2)"
    using fl_near [of "-3" "- L - L" "- 5764607523034235"]
    by (simp add: ieee_minus_def L_def L2_def pow2_def)
  have m2: "ieee_times (Num (- L2)) (Num Math_PI) = Num (- P2)"
    using fl_near [of "-1" "- L2 * Math_PI" "- 4527512161298202"]
    by (simp add: ieee_times_def L2_def P2_def Math_PI_def pow2_def)
  have m3: "ieee_divide (Num (- P2)) (Num 180) = Num (- DL)"
    using fl_near [of "-9" "- P2 / 180" "- 6439128407179665"]
    by (simp add: ieee_divide_def P2_def DL_def pow2_def)
  have m4: "ieee_divide (Num (- DL)) (Num 2) = Num (- H)"
    using fl_near [of "-10" "- DL / 2" "- 6439128407179665"]
    by (simp add: ieee_divide_def DL_def H_def pow2_def)
  have s1: "Math_sin_double lib (Num (- H)) = Num (- S)"
    using sin1 by (simp add: Math_sin_double_def H_def S_def)
  have m5: "ieee_times (Num (- S)) (Num (- S)) = Num SS"
    using fl_near [of "-19" "- S * - S" 4603245307134343]
    by (simp add: ieee_times_def S_def SS_def pow2_def)
  have n1: "ieee_minus (Num 90) (Num (- 90)) = Num 180"
    using fl_near [of 7 "90 - (- 90)" 6333186975989760]
    by (simp add: ieee_minus_def pow2_def)
  have m6: "ieee_times (Num 180) (Num Math_PI) = Num Q"
    using fl_near [of 9 "180 * Math_PI" 4974073419394997]
    by (simp add: ieee_times_def Q_def Math_PI_def pow2_def)
  have m7: "ieee_divide (Num Q) (Num 180) = Num Math_PI"
    using fl_near [of 1 "Q / 180" 7074237752028440]
    by (simp add: ieee_divide_def Q_def Math_PI_def pow2_def)
  have m8: "ieee_divide (Num Math_PI) (Num 2) = Num PIH"
    using fl_near [of 0 "Math_PI / 2" 7074237752028440]
    by (simp add: ieee_divide_def PIH_def Math_PI_def pow2_def)
  have s2: "Math_sin_double lib (Num PIH) = Num 1"
    using sin2 by (simp add: Math_sin_double_def PIH_def)
  have m9: "ieee_times (Num L) (Num Math_PI) = Num P1"
    using fl_near [of "-2" "L * Math_PI" 4527512161298202]
    by (simp add: ieee_times_def L_def P1_def Math_PI_def pow2_def)
  have m10: "ieee_divide (Num P1) (Num 180) = Num H"
    using fl_near [of "-10" "P1 / 180" 6439128407179665]
    by (simp add: ieee_divide_def P1_def H_def pow2_def)
  have m11: "ieee_times (Num (- L)) (Num Math_PI) = Num (- P1)"
    using fl_near [of "-2" "- L * Math_PI" "- 4527512161298202"]
    by (simp add: ieee_times_def L_def P1_def Math_PI_def pow2_def)
  have m12: "ieee_divide (Num (- P1)) (Num 180) = Num (- H)"
    using fl_near [of "-10" "- P1 / 180" "- 6439128407179665"]
    by (simp add: ieee_divide_def P1_def H_def pow2_def)
  have c1: "Math_cos_double lib (Num H) = Num C" "Math_cos_double lib (Num (- H)) = Num C"
    using cos1 cos2 by (simp_all add: Math_cos_double_def H_def C_def)
  have m13: "ieee_times (Num C) (Num C) = Num CC"
    using fl_near [of "-1" "C * C" 9007181694753707]
    by (simp add: ieee_times_def C_def CC_def pow2_def)
  have m14: "ieee_times (Num CC) (Num 1) = Num CC"
    using fl_near [of "-1" "CC * 1" 9007181694753707]
    by (simp add: ieee_times_def CC_def pow2_def)
  have m15: "ieee_plus (Num SS) (Num CC) = Num A"
    using fl_near [of 0 "SS + CC" 4503599627370497]
    by (simp add: ieee_plus_def SS_def CC_def A_def pow2_def)
  have m16: "ieee_minus (Num 1) (Num A) = Num (- E)"
    using fl_near [of "-52" "1 - A" "- 4503599627370496"]
    by (simp add: ieee_minus_def A_def E_def pow2_def)
  have r: "Math_sqrt_double (Num (- E)) = NaN"
    by (simp add: Math_sqrt_double_def E_def)
  show ?thesis
    unfolding haversine_double_def Let_def loc
    by (simp only: m1 m2 m3 m4 s1 m5 n1 m6 m7 m8 s2 m9 m10 m11 m12 c1 m13 m14 m15 m16 r ieee_NaN)
qed

text \<open>
  The part of the claim on equal coordinates holds on doubles too: every difference
  is 0, so is \<open>a\<close>, and the distance is 0 for a library with \<open>sin 0 = 0\<close> and
  \<open>atan2 0 1 = 0\<close>.
\<close>

lemma fl_0: "fl 0 = 0"
  by (simp add: fl_def)

lemma fl_1: "fl 1 = 1"
  using fl_near [of 0 1 4503599627370496] by (simp add: pow2_def)

lemma haversine_double_same:
  assumes "lib_sin lib 0 = 0" and "lib_atan2 lib 0 1 = 0"
  shows "haversine_double lib \<lparr>lat = x, lng = y, address = a1\<rparr> \<lparr>lat = x, lng = y, address = a2\<rparr> = Num 0"
  using assms
  by (simp add: haversine_double_def Let_def ieee_plus_def ieee_minus_def ieee_times_def
      ieee_divide_def Math_sin_double_def Math_cos_double_def Math_atan2_double_def
      Math_sqrt_double_def fl_0 fl_1)

text \<open>
  C2. The distance calculation does not return a non-negative number for every pair of
  coordinates. For the start \<^verbatim>\<open>{lat: 0.08, lng: -90}\<close> and the destination
  \<^verbatim>\<open>{lat: -0.08, lng: 90}\<close>, with a library that returns the doubles nearest to the
  sine and the cosine at the four arguments that arise, the rounded sum \<open>a\<close> is
  \<open>1 + 2^(-52)\<close>, \<^verbatim>\<open>1 - a\<close> is negative, \<^verbatim>\<open>Math.sqrt(1 - a)\<close> is \<^verbatim>\<open>NaN\<close>, and so is the
  distance. With exact arithmetic the same expressions give the Haversine distance of
  the two locations, a non-negative number: the code does not keep \<open>a\<close> within
  \<open>[0, 1]\<close> before it takes the square roots.
\<close>

theorem haversine_double_not_a_number:
  assumes "lib_sin lib (- (6439128407179665 / 2 ^ 62)) = - (6439126314944476 / 2 ^ 62)"
    and "lib_sin lib (884279719003555 / 2 ^ 49) = 1"
    and "lib_cos lib (6439128407179665 / 2 ^ 62) = 9007190474743070 / 2 ^ 53"
    and "lib_cos lib (- (6439128407179665 / 2 ^ 62)) = 9007190474743070 / 2 ^ 53"
  shows "haversine_double lib antipodal_start antipodal_finish = NaN \<and>
         haversine_distance antipodal_start antipodal_finish =
           Num (haversine_spec (lat antipodal_start) (lng antipodal_start)
                  (lat antipodal_finish) (lng antipodal_finish)) \<and>
         0 \<le> haversine_spec (lat antipodal_start) (lng antipodal_start)
                (lat antipodal_finish) (lng antipodal_finish)"
  using haversine_double_near_antipodal [OF assms]
    haversine_distance_spec [of antipodal_start antipodal_finish]
    haversine_spec_nonneg [of antipodal_start antipodal_finish]
  by blast

theorem haversine_double_not_a_number_witness:
  "haversine_double libm_table antipodal_start antipodal_finish = NaN"
  using haversine_double_not_a_number [of libm_table]
  by (simp add: libm_table_def)


section \<open>Profile lookup\<close>

text \<open>
  C4. Profile lookup is a total function with no error result. The identifiers of the
  enumeration are pairwise distinct; an identifier of the enumeration selects the profile
  that carries it, and any other identifier selects the first entry, Gas Car with
  170 g/km.
\<close>

theorem getSelectedTransportType_lookup:
  "distinct (map id' transportTypes) \<and>
   (sel \<in> set (map id' transportTypes) \<longrightarrow>
      getSelectedTransportType sel \<in> set transportTypes \<and>
      id' (getSelectedTransportType sel) = sel) \<and>
   (sel \<notin> set (map id' transportTypes) \<longrightarrow>
      getSelectedTransportType sel = transportTypes ! 0 \<and>
      name (getSelectedTransportType sel) = ''Gas Car'' \<and>
      emissionFactor (getSelectedTransportType sel) = 170)"
  by (auto simp: getSelectedTransportType_def transportTypes_def)

theorem getSelectedTransportType_lookup_witness:
  "''bus'' \<in> set (map id' transportTypes) \<and>
   id' (getSelectedTransportType ''bus'') = ''bus'' \<and>
   ''bicycle'' \<notin> set (map id' transportTypes) \<and>
   name (getSelectedTransportType ''bicycle'') = ''Gas Car'' \<and>
   emissionFactor (getSelectedTransportType ''bicycle'') = 170"
proof -
  have b: "''bus'' \<in> set (map id' transportTypes)"
    by (simp add: transportTypes_def)
  have c: "''bicycle'' \<notin> set (map id' transportTypes)"
    by (simp add: transportTypes_def)
  from getSelectedTransportType_lookup [of "''bus''"] b
  have "id' (getSelectedTransportType ''bus'') = ''bus''" by blast
  moreover from getSelectedTransportType_lookup [of "''bicycle''"] c
  have "name (getSelectedTransportType ''bicycle'') = ''Gas Car'' \<and>
        emissionFactor (getSelectedTransportType ''bicycle'') = 170" by blast
  ultimately show ?thesis using b c by blast
qed

section \<open>The calculation\<close>

lemma getSelectedTransportType_member: "getSelectedTransportType sel \<in> set transportTypes"
  by (auto simp: getSelectedTransportType_def transportTypes_def)

lemma emissionFactor_nonneg: "0 \<le> emissionFactor (getSelectedTransportType sel)"
  using getSelectedTransportType_member [of sel] by (auto simp: transportTypes_def)

lemma calculateEmissions_fields:
  fixes fetch_directions generateContent start finish st
  defines "d \<equiv> haversine_spec (lat start) (lng start) (lat finish) (lng finish)"
    and "p \<equiv> getSelectedTransportType (selectedTransportType st)"
    and "r \<equiv> fst (calculateEmissions fetch_directions generateContent start finish st)"
  shows "distance r = Num (round_places 2 d)"
    and "emissions r = Num (round_places 2 (d * emissionFactor p / 1000))"
    and "transportType r = name p"
    and "aiFeedback r = Some (getAIFeedback generateContent (getRouteData fetch_directions start finish)
           (Num (round_places 2 d)) p)"
  by (simp_all add: r_def d_def p_def calculateEmissions_def Let_def haversine_distance_spec
      parseFloat_toFixed)

lemma calculateEmissions_state:
  "snd (calculateEmissions fetch_directions generateContent start finish st) = st\<lparr>isLoadingAI := False\<rparr>"
  by (simp add: calculateEmissions_def Let_def)

text \<open>
  With exact arithmetic, for every start and end location and every selected profile,
  the emissions of the result are the distance times the emission factor of the profile
  over 1000, rounded to two decimal places: the product is formed from the distance as
  computed, not from the rounded distance the result shows, and the rounding moves it
  by at most 0.005. The distance of the result is the computed distance rounded to two
  places. Both are non-negative.
\<close>

lemma calculateEmissions_rounding:
  fixes fetch_directions generateContent start finish st
  defines "d \<equiv> haversine_spec (lat start) (lng start) (lat finish) (lng finish)"
    and "p \<equiv> getSelectedTransportType (selectedTransportType st)"
    and "r \<equiv> fst (calculateEmissions fetch_directions generateContent start finish st)"
  shows "haversine_distance start finish = Num d \<and>
         emissions r = Num (round_places 2 (d * emissionFactor p / 1000)) \<and>
         \<bar>round_places 2 (d * emissionFactor p / 1000) - d * emissionFactor p / 1000\<bar> \<le> 1 / 200 \<and>
         distance r = Num (round_places 2 d) \<and>
         0 \<le> round_places 2 d \<and>
         0 \<le> round_places 2 (d * emissionFactor p / 1000)"
proof -
  have d: "0 \<le> d" unfolding d_def by (rule haversine_spec_nonneg)
  have f: "0 \<le> emissionFactor p" unfolding p_def by (rule emissionFactor_nonneg)
  have e: "0 \<le> d * emissionFactor p / 1000" using d f by simp
  have n: "\<bar>round_places 2 (d * emissionFactor p / 1000) - d * emissionFactor p / 1000\<bar> \<le> 1 / 200"
    using round_places_near [of 2 "d * emissionFactor p / 1000"] by simp
  show ?thesis
    using calculateEmissions_fields(1,2) [of fetch_directions generateContent start finish st]
      round_places_nonneg [OF d, of 2] round_places_nonneg [OF e, of 2] n
    by (simp add: d_def p_def r_def haversine_distance_spec)
qed

lemma parseFloat_double_NaN: "parseFloat_double (toFixed f NaN) = NaN"
  by (simp add: parseFloat_double_def toFixed_def parseFloat_def strip_sign_def
      parse_unsigned_def is_digit_def)

text \<open>
  C1. The distance and the emissions of the result are not non-negative numbers for
  every pair of locations. For the start \<^verbatim>\<open>{lat: 0.08, lng: -90}\<close> and the destination
  \<^verbatim>\<open>{lat: -0.08, lng: 90}\<close>, whatever the selected profile and the answers of the two
  services, the distance computed on doubles is \<^verbatim>\<open>NaN\<close>, so the product with the
  emission factor is \<^verbatim>\<open>NaN\<close>, \<^verbatim>\<open>toFixed(2)\<close> prints both as the string \<^verbatim>\<open>NaN\<close>, and
  \<^verbatim>\<open>parseFloat\<close> reads \<^verbatim>\<open>NaN\<close> back: both fields of the result are \<^verbatim>\<open>NaN\<close>. The
  library is as for the distance.
\<close>

theorem calculateEmissions_double_not_a_number:
  assumes "lib_sin lib (- (6439128407179665 / 2 ^ 62)) = - (6439126314944476 / 2 ^ 62)"
    and "lib_sin lib (884279719003555 / 2 ^ 49) = 1"
    and "lib_cos lib (6439128407179665 / 2 ^ 62) = 9007190474743070 / 2 ^ 53"
    and "lib_cos lib (- (6439128407179665 / 2 ^ 62)) = 9007190474743070 / 2 ^ 53"
  shows "distance (fst (calculateEmissions_double lib fetch_directions generateContent
                          antipodal_start antipodal_finish st)) = NaN \<and>
         emissions (fst (calculateEmissions_double lib fetch_directions generateContent
                           antipodal_start antipodal_finish st)) = NaN"
  using haversine_double_near_antipodal [OF assms]
  by (simp add: calculateEmissions_double_def Let_def parseFloat_double_NaN)

theorem calculateEmissions_double_not_a_number_witness:
  "fst (calculateEmissions_double libm_table (\<lambda>origin destination. Threw) (\<lambda>prompt. Threw)
          antipodal_start antipodal_finish example_state) =
     \<lparr>distance = NaN, emissions = NaN, transportType = ''Bus'',
      aiFeedback = Some ''Unable to generate AI feedback at this time. Please try again later.''\<rparr>"
proof -
  have t: "lib_sin libm_table (- (6439128407179665 / 2 ^ 62)) = - (6439126314944476 / 2 ^ 62)"
    "lib_sin libm_table (884279719003555 / 2 ^ 49) = 1"
    "lib_cos libm_table (6439128407179665 / 2 ^ 62) = 9007190474743070 / 2 ^ 53"
    "lib_cos libm_table (- (6439128407179665 / 2 ^ 62)) = 9007190474743070 / 2 ^ 53"
    by (simp_all add: libm_table_def)
  have p: "getSelectedTransportType (selectedTransportType example_state) =
      \<lparr>id' = ''bus'', name = ''Bus'', emissionFactor = 31, icon = Bus\<rparr>"
    by (simp add: example_state_def getSelectedTransportType_def transportTypes_def)
  have "distance (fst (calculateEmissions_double libm_table (\<lambda>origin destination. Threw)
                         (\<lambda>prompt. Threw) antipodal_start antipodal_finish example_state)) = NaN \<and>
        emissions (fst (calculateEmissions_double libm_table (\<lambda>origin destination. Threw)
                          (\<lambda>prompt. Threw) antipodal_start antipodal_finish example_state)) = NaN"
    by (rule calculateEmissions_double_not_a_number [OF t])
  then show ?thesis
    by (simp add: calculateEmissions_double_def Let_def p getAIFeedback_def apology_def)
qed

text \<open>
  The total the prompt prints where the exact quotient lies halfway between two
  decimals: 2.5 km by Gas Car are 0.425 kg, the double of the quotient lies below it,
  and \<^verbatim>\<open>toFixed(2)\<close> prints \<^verbatim>\<open>0.42\<close>.
\<close>

lemma total_emissions_halfway:
  "toFixed 2 (ieee_divide (ieee_times (Num 2.5) (Num 170)) (Num 1000)) = ''0.42''"
proof -
  have "ieee_times (Num 2.5) (Num 170) = Num 425"
    using fl_near [of 8 "2.5 * 170" 7476679068876800]
    by (simp add: ieee_times_def pow2_def)
  moreover have "ieee_divide (Num 425) (Num 1000) = Num (7656119366529843 / 2 ^ 54)"
    using fl_near [of "-2" "425 / 1000" 7656119366529843]
    by (simp add: ieee_divide_def pow2_def)
  moreover have "nat \<lfloor>7656119366529843 / 2 ^ 54 * 10 ^ 2 + 1 / (2 :: real)\<rfloor> = 42"
    by simp
  moreover have "decimal_digits 42 = ''42''"
    by (simp add: decimal_digits.simps [of 42] decimal_digits.simps [of 4] digit_char_def)
  ultimately show ?thesis
    by (simp add: toFixed_def toFixed_digits_def replicate_numeral_Cons)
qed

lemma handleCalculate_returns:
  assumes "startLocation st = Some start" "endLocation st = Some finish"
  shows "handleCalculate (calculate fetch_directions generateContent) st =
           st\<lparr>isCalculating := False, error := None, isLoadingAI := False,
              result := Some (fst (calculateEmissions fetch_directions generateContent start finish st))\<rparr>"
  using assms
  by (simp add: handleCalculate_def calculate_def calculateEmissions_def Let_def split: prod.splits)





text \<open>
  C10. When the awaited calculation throws, having written at most the loading flag of
  the narrative (the one piece of state \<^verbatim>\<open>calculateEmissions\<close> writes), the handler
  leaves the state as it was but for the error message, which it sets, and the in-flight
  flag, which it clears: the result shown before, both locations and the selected
  profile are unchanged.
\<close>

theorem handleCalculate_failure_frame:
  assumes "startLocation st = Some start" and "endLocation st = Some finish"
    and "calc start finish (st\<lparr>isCalculating := True, error := None\<rparr>) =
           (Inl e, st\<lparr>isCalculating := True, error := None, isLoadingAI := b\<rparr>)"
  shows "handleCalculate calc st =
           st\<lparr>isLoadingAI := b,
              error := Some ''Error calculating emissions. Please try again.'',
              isCalculating := False\<rparr> \<and>
         result (handleCalculate calc st) = result st \<and>
         startLocation (handleCalculate calc st) = startLocation st \<and>
         endLocation (handleCalculate calc st) = endLocation st \<and>
         selectedTransportType (handleCalculate calc st) = selectedTransportType st"
  using assms by (simp add: handleCalculate_def Let_def)

theorem handleCalculate_failure_frame_witness:
  "handleCalculate failing_calc shown_state =
     shown_state\<lparr>isLoadingAI := True,
       error := Some ''Error calculating emissions. Please try again.''\<rparr> \<and>
   result (handleCalculate failing_calc shown_state) =
     Some \<lparr>distance = Num 1, emissions = Num 2, transportType = ''Bus'', aiFeedback = None\<rparr>"
proof -
  have "handleCalculate failing_calc shown_state =
           shown_state\<lparr>isLoadingAI := True,
              error := Some ''Error calculating emissions. Please try again.'',
              isCalculating := False\<rparr> \<and>
         result (handleCalculate failing_calc shown_state) = result shown_state \<and>
         startLocation (handleCalculate failing_calc shown_state) = startLocation shown_state \<and>
         endLocation (handleCalculate failing_calc shown_state) = endLocation shown_state \<and>
         selectedTransportType (handleCalculate failing_calc shown_state) =
           selectedTransportType shown_state"
    by (rule handleCalculate_failure_frame [where start = example_location
          and finish = example_location and e = TypeError])
      (simp_all add: shown_state_def example_state_def failing_calc_def)
  then show ?thesis
    by (simp add: shown_state_def example_state_def)
qed

section \<open>Reverse geocoding\<close>

lemma toFixed_format:
  assumes "0 < f"
  shows "\<exists>ip fp. toFixed f (Num x) = (if x < 0 then ''-'' else []) @ ip @ ''.'' @ fp \<and>
           ip \<noteq> [] \<and> list_all is_digit ip \<and> list_all is_digit fp \<and> length fp = f"
proof -
  have "\<exists>ip fp. toFixed_digits f n = ip @ ''.'' @ fp \<and>
           ip \<noteq> [] \<and> list_all is_digit ip \<and> list_all is_digit fp \<and> length fp = f" for n
    using toFixed_digits_parse [of f n] assms by auto
  then show ?thesis
    by (simp add: toFixed_def)
qed

text \<open>
  C8. When the lookup of the address of a coordinate pair (a latitude of magnitude at
  most 90 and a longitude of magnitude at most 180) fails, the address returned is
  \<^verbatim>\<open>Location at\<close>, the latitude printed by \<^verbatim>\<open>toFixed(4)\<close>, a comma and a blank, and
  the longitude printed by \<^verbatim>\<open>toFixed(4)\<close>; each of the two prints has an optional
  minus sign, at least one digit, a point and exactly four digits.
\<close>

theorem getAddressFromCoordinates_fallback:
  assumes "lookup_failed (fetch_geocode latitude longitude)"
    and "\<bar>latitude\<bar> \<le> 90" and "\<bar>longitude\<bar> \<le> 180"
  shows "getAddressFromCoordinates fetch_geocode latitude longitude =
           ''Location at '' @ toFixed 4 (Num latitude) @ '', '' @ toFixed 4 (Num longitude) \<and>
         (\<exists>ip fp. toFixed 4 (Num latitude) = (if latitude < 0 then ''-'' else []) @ ip @ ''.'' @ fp \<and>
            ip \<noteq> [] \<and> list_all is_digit ip \<and> list_all is_digit fp \<and> length fp = 4) \<and>
         (\<exists>ip fp. toFixed 4 (Num longitude) = (if longitude < 0 then ''-'' else []) @ ip @ ''.'' @ fp \<and>
            ip \<noteq> [] \<and> list_all is_digit ip \<and> list_all is_digit fp \<and> length fp = 4)"
proof -
  have "getAddressFromCoordinates fetch_geocode latitude longitude = location_at latitude longitude"
    using assms(1)
    by (auto simp: getAddressFromCoordinates_def getAddressFromCoordinates_try_def lookup_failed_def
        split: awaited.splits option.splits sum.splits if_splits)
  then show ?thesis
    using toFixed_format [of 4 latitude] toFixed_format [of 4 longitude]
    by (simp add: location_at_def)
qed

theorem getAddressFromCoordinates_fallback_witness:
  "getAddressFromCoordinates fetch_example (-33.86882) 151.2093 = ''Location at -33.8688, 151.2093'' \<and>
   getAddressFromCoordinates fetch_example 49.2827 (-123.1207) = ''Location at 49.2827, -123.1207'' \<and>
   getAddressFromCoordinates fetch_example 0.00005 0.5 = ''Location at 0.0001, 0.5000'' \<and>
   getAddressFromCoordinates fetch_example 49.28275 1 = ''Location at 49.2828, 1.0000''"
proof -
  have f: "lookup_failed (fetch_example (-33.86882) 151.2093)"
    "lookup_failed (fetch_example 49.2827 (-123.1207))"
    "lookup_failed (fetch_example 0.00005 0.5)"
    "lookup_failed (fetch_example 49.28275 1)"
    by (simp_all add: lookup_failed_def fetch_example_def)
  have t: "toFixed 4 (Num (-33.86882)) = ''-33.8688''" "toFixed 4 (Num 151.2093) = ''151.2093''"
    "toFixed 4 (Num 49.2827) = ''49.2827''" "toFixed 4 (Num (-123.1207)) = ''-123.1207''"
    "toFixed 4 (Num 0.00005) = ''0.0001''" "toFixed 4 (Num 0.5) = ''0.5000''"
    "toFixed 4 (Num 49.28275) = ''49.2828''" "toFixed 4 (Num 1) = ''1.0000''"
    by (simp_all add: toFixed_def toFixed_digits_def decimal_digits.simps digit_char_def replicate_numeral_Cons)
  have r: "\<bar>- 33.86882 :: real\<bar> \<le> 90" "\<bar>151.2093 :: real\<bar> \<le> 180"
    "\<bar>49.2827 :: real\<bar> \<le> 90" "\<bar>- 123.1207 :: real\<bar> \<le> 180"
    "\<bar>0.00005 :: real\<bar> \<le> 90" "\<bar>0.5 :: real\<bar> \<le> 180"
    "\<bar>49.28275 :: real\<bar> \<le> 90" "\<bar>1 :: real\<bar> \<le> 180"
    by simp_all
  show ?thesis
    using
      getAddressFromCoordinates_fallback [where fetch_geocode = fetch_example
        and latitude = "-33.86882" and longitude = "151.2093", OF f(1) r(1,2)]
      getAddressFromCoordinates_fallback [where fetch_geocode = fetch_example
        and latitude = "49.2827" and longitude = "-123.1207", OF f(2) r(3,4)]
      getAddressFromCoordinates_fallback [where fetch_geocode = fetch_example
        and latitude = "0.00005" and longitude = "0.5", OF f(3) r(5,6)]
      getAddressFromCoordinates_fallback [where fetch_geocode = fetch_example
        and latitude = "49.28275" and longitude = "1", OF f(4) r(7,8)]
    by (simp only: t) simp
qed

section \<open>The transit itinerary\<close>

lemma walking_wf:
  assumes "wf_step w"
  shows "walking w = Inr (adjacent_walk (Some w))"
  using assms
  by (auto simp: wf_step_def wf_text_def walking_def adjacent_walk_def is_walking_step_def
      walking_text_def and_then_def deref_def split: option.splits Option.bind_splits)

lemma following_step:
  "(case drop (Suc i) steps of [] \<Rightarrow> None | following # _ \<Rightarrow> Some following) =
     (if i < length steps - 1 then Some (steps ! (i + 1)) else None)"
proof (cases "Suc i < length steps")
  case True
  then have "drop (Suc i) steps = steps ! Suc i # drop (Suc (Suc i)) steps"
    by (simp add: Cons_nth_drop_Suc)
  with True show ?thesis by simp
next
  case False
  then have "drop (Suc i) steps = []" by simp
  with False show ?thesis by (simp add: less_diff_conv)
qed

lemma step_body_wf:
  assumes "i < length steps" and "list_all wf_step steps"
  shows "step_body steps i acc =
           Inr (acc @
             (case step_transit_details (steps ! i) of
                None \<Rightarrow> []
              | Some transit \<Rightarrow>
                  [segment_spec (if i = 0 then None else Some (steps ! (i - 1))) (steps ! i) transit
                     (if i < length steps - 1 then Some (steps ! (i + 1)) else None)]))"
proof (cases "step_transit_details (steps ! i)")
  case None
  then show ?thesis by (simp add: step_body_def)
next
  case (Some transit)
  have wf: "wf_step (steps ! i)"
    using assms by (simp add: list_all_length)
  from wf Some obtain line vehicle departure arrival distance where parts:
    "td_line transit = Some line" "line_vehicle line = Some vehicle"
    "td_departure_stop transit = Some departure" "td_arrival_stop transit = Some arrival"
    "step_distance (steps ! i) = Some distance"
    by (auto simp: wf_step_def wf_transit_def wf_name_def wf_text_def split: Option.bind_splits)
  define before where "before = (if i = 0 then None else Some (steps ! (i - 1)))"
  define after where "after = (if i < length steps - 1 then Some (steps ! (i + 1)) else None)"
  have b: "(if i > 0 then walking (steps ! (i - 1)) else Inr None) = Inr (adjacent_walk before)"
  proof (cases "i > 0")
    case True
    then have "wf_step (steps ! (i - 1))" using assms by (simp add: list_all_length)
    then show ?thesis using True by (simp add: walking_wf before_def)
  next
    case False
    then show ?thesis by (simp add: before_def adjacent_walk_def)
  qed
  have a: "(if i < length steps - 1 then walking (steps ! (i + 1)) else Inr None) =
      Inr (adjacent_walk after)"
  proof (cases "i < length steps - 1")
    case True
    then have "wf_step (steps ! (i + 1))" using assms by (simp add: list_all_length)
    then show ?thesis using True by (simp add: walking_wf after_def)
  next
    case False
    then show ?thesis by (simp add: after_def adjacent_walk_def)
  qed
  have "step_body steps i acc =
      Inr (acc @ [\<lparr>mode = obj_name vehicle, departure_stop = obj_name departure,
        arrival_stop = obj_name arrival, transit_distance = obj_text distance,
        walking_before = adjacent_walk before, walking_after = adjacent_walk after\<rparr>])"
    unfolding step_body_def Let_def Some a b
    by (simp add: parts and_then_def deref_def)
  moreover have "segment_spec before (steps ! i) transit after =
      \<lparr>mode = obj_name vehicle, departure_stop = obj_name departure,
        arrival_stop = obj_name arrival, transit_distance = obj_text distance,
        walking_before = adjacent_walk before, walking_after = adjacent_walk after\<rparr>"
    by (simp add: segment_spec_def parts)
  ultimately show ?thesis
    unfolding Some before_def after_def by simp
qed

lemma steps_loop_wf:
  assumes "list_all wf_step steps"
  shows "steps_loop steps i acc =
           Inr (acc @ leg_segments_spec (if i = 0 then None else Some (steps ! (i - 1))) (drop i steps))"
  using assms
proof (induction steps i acc rule: steps_loop.induct)
  case (1 steps i acc)
  show ?case
  proof (cases "i < length steps")
    case False
    then show ?thesis by (subst steps_loop.simps) simp
  next
    case True
    have d: "drop i steps = steps ! i # drop (Suc i) steps"
      using True by (simp add: Cons_nth_drop_Suc)
    note body = step_body_wf [OF True "1.prems", of acc]
    have "steps_loop steps i acc = steps_loop steps (i + 1)
            (acc @ (case step_transit_details (steps ! i) of
                None \<Rightarrow> []
              | Some transit \<Rightarrow>
                  [segment_spec (if i = 0 then None else Some (steps ! (i - 1))) (steps ! i) transit
                     (if i < length steps - 1 then Some (steps ! (i + 1)) else None)]))"
      using True by (subst steps_loop.simps) (simp add: body)
    also have "\<dots> = Inr ((acc @ (case step_transit_details (steps ! i) of
                None \<Rightarrow> []
              | Some transit \<Rightarrow>
                  [segment_spec (if i = 0 then None else Some (steps ! (i - 1))) (steps ! i) transit
                     (if i < length steps - 1 then Some (steps ! (i + 1)) else None)])) @
              leg_segments_spec (Some (steps ! i)) (drop (i + 1) steps))"
      using "1.IH" [OF True body "1.prems"] by simp
    finally show ?thesis
      by (subst d) (simp add: following_step cong: option.case_cong)
  qed
qed

lemma legs_loop_wf:
  assumes "list_all wf_leg legs"
  shows "legs_loop legs acc = Inr (acc @ itinerary_spec legs)"
  using assms
proof (induction legs arbitrary: acc)
  case Nil
  then show ?case by (simp add: itinerary_spec_def)
next
  case (Cons leg legs)
  then obtain steps where s: "leg_steps leg = Some steps" "list_all wf_step steps"
    by (auto simp: wf_leg_def split: option.splits)
  have "steps_loop steps 0 acc = Inr (acc @ leg_segments_spec None steps)"
    using steps_loop_wf [OF s(2), of 0 acc] by simp
  then show ?case
    using Cons s(1) by (simp add: itinerary_spec_def)
qed

text \<open>
  C5. On a well-formed directions answer \<^verbatim>\<open>getRouteData\<close> returns the itinerary of
  the legs of the first route as the specification words it: one segment for each step
  with transit details, in the order of the steps, with the mode, the stops and the
  distance text of that step, the walking text before taken from the step just before
  it in its leg and the walking text after from the step just after it in its leg, when
  that neighbour is a walking step, and never from a step of another leg. An itinerary
  with no segment is returned as \<^verbatim>\<open>null\<close>.
\<close>

theorem getRouteData_itinerary:
  assumes "fetch_directions origin destination = Resolved directions"
    and "well_formed directions"
    and "dir_routes directions = Some (route # others)"
    and "route_legs route = Some legs"
  shows "getRouteData fetch_directions origin destination =
           (if itinerary_spec legs = [] then None else Some (itinerary_spec legs))"
proof -
  have "list_all wf_leg legs"
    using assms(2,3,4) by (simp add: well_formed_def wf_route_def)
  then have "legs_loop legs [] = Inr (itinerary_spec legs)"
    using legs_loop_wf [of legs "[]"] by simp
  then show ?thesis
    using assms by (simp add: getRouteData_def getRouteData_try_def well_formed_def and_then_def deref_def)
qed

lemmas example_defs =
  example_walk_def example_ride_def example_broken_def example_legs_def example_directions_def
  zero_results_def example_segment_def

lemmas getRouteData_eval =
  getRouteData_def getRouteData_try_def and_then_def deref_def steps_loop.simps step_body_def
  walking_def toLowerCase_def lower_char_def js_string_def

theorem getRouteData_itinerary_witness:
  "getRouteData
     (\<lambda>origin destination. Resolved (example_directions
        [[example_walk, example_ride, example_walk], [example_ride], [example_walk], [example_ride]]))
     example_location example_location =
   Some [example_segment (Some ''0.3 km (Duration: 4 mins)'') (Some ''0.3 km (Duration: 4 mins)''),
         example_segment None None,
         example_segment None None]"
proof -
  let ?stepss = "[[example_walk, example_ride, example_walk], [example_ride], [example_walk], [example_ride]]"
  have wf: "well_formed (example_directions ?stepss)"
    by (simp add: well_formed_def wf_route_def wf_leg_def wf_step_def wf_transit_def wf_name_def
        wf_text_def example_defs)
  have r: "dir_routes (example_directions ?stepss) =
      Some (\<lparr>route_legs = Some (example_legs ?stepss)\<rparr> # [])"
    "route_legs \<lparr>route_legs = Some (example_legs ?stepss)\<rparr> = Some (example_legs ?stepss)"
    by (simp_all add: example_directions_def)
  have i: "itinerary_spec (example_legs ?stepss) =
      [example_segment (Some ''0.3 km (Duration: 4 mins)'') (Some ''0.3 km (Duration: 4 mins)''),
       example_segment None None, example_segment None None]"
    by (simp add: itinerary_spec_def segment_spec_def adjacent_walk_def is_walking_step_def
        walking_text_def toLowerCase_def lower_char_def js_string_def example_defs)
  show ?thesis
    using getRouteData_itinerary [where fetch_directions =
        "\<lambda>origin destination. Resolved (example_directions ?stepss)"
        and origin = example_location and destination = example_location, OF _ wf r]
    by (simp add: i)
qed

lemma steps_loop_no_transit:
  assumes "list_all (\<lambda>step. step_transit_details step = None) steps"
  shows "steps_loop steps i acc = Inr acc"
  using assms
proof (induction steps i acc rule: steps_loop.induct)
  case (1 steps i acc)
  show ?case
  proof (cases "i < length steps")
    case False
    then show ?thesis by (subst steps_loop.simps) simp
  next
    case True
    then have body: "step_body steps i acc = Inr acc"
      using "1.prems" by (simp add: step_body_def list_all_length)
    show ?thesis
      using True "1.IH" [OF True body "1.prems"]
      by (subst steps_loop.simps) (simp add: body)
  qed
qed

lemma legs_loop_no_transit:
  assumes "list_all (\<lambda>leg. case leg_steps leg of
                            None \<Rightarrow> False
                          | Some steps \<Rightarrow> list_all (\<lambda>step. step_transit_details step = None) steps)
            legs"
  shows "legs_loop legs acc = Inr acc"
  using assms
  by (induction legs arbitrary: acc) (auto simp: steps_loop_no_transit split: option.splits)

lemma getRouteData_none:
  assumes "fetch_directions origin destination = Resolved directions"
    and "without_itinerary directions"
  shows "getRouteData fetch_directions origin destination = None"
proof (cases "dir_status directions = Some ''OK''")
  case False
  then show ?thesis using assms(1) by (simp add: getRouteData_def getRouteData_try_def)
next
  case True
  show ?thesis
  proof (cases "dir_routes directions")
    case None
    then show ?thesis using assms(1) by (simp add: getRouteData_def getRouteData_try_def)
  next
    case (Some routes)
    show ?thesis
    proof (cases routes)
      case Nil
      then show ?thesis using assms(1) Some by (simp add: getRouteData_def getRouteData_try_def)
    next
      case (Cons route others)
      then have "no_transit_details route"
        using assms(2) True Some by (simp add: without_itinerary_def)
      then obtain legs where l: "route_legs route = Some legs" "legs_loop legs [] = Inr []"
        by (auto simp: no_transit_details_def legs_loop_no_transit split: option.splits)
      then show ?thesis
        using assms(1) True Some Cons
        by (simp add: getRouteData_def getRouteData_try_def and_then_def deref_def)
    qed
  qed
qed

text \<open>
  C6, as the code has it. For a directions answer with a status other than \<^verbatim>\<open>OK\<close>,
  with no route, or with a first route whose steps carry no transit details,
  \<^verbatim>\<open>getRouteData\<close> returns \<^verbatim>\<open>null\<close>, not an empty sequence. The caller treats
  \<^verbatim>\<open>null\<close> and an empty sequence alike: the prompt is the head, the lines of the
  selected profile and the distance, and the tail; the calculation returns its result
  and the handler reports no error.
\<close>

theorem getRouteData_without_itinerary:
  assumes "fetch_directions start finish = Resolved directions"
    and "without_itinerary directions"
  shows "getRouteData fetch_directions start finish = None \<and>
         build_prompt (Some []) distance' transportType' = build_prompt None distance' transportType' \<and>
         build_prompt (getRouteData fetch_directions start finish) distance' transportType' =
           prompt_head @ profile_lines distance' transportType' @ prompt_tail distance' transportType' \<and>
         (startLocation st = Some start \<and> endLocation st = Some finish \<longrightarrow>
            error (handleCalculate (calculate fetch_directions generateContent) st) = None \<and>
            result (handleCalculate (calculate fetch_directions generateContent) st) =
              Some (fst (calculateEmissions fetch_directions generateContent start finish st)))"
  using getRouteData_none [where fetch_directions = fetch_directions and origin = start
      and destination = finish, OF assms]
  by (simp add: build_prompt_def handleCalculate_returns)

theorem getRouteData_without_itinerary_witness:
  "getRouteData (\<lambda>origin destination. Resolved zero_results) example_location example_location = None \<and>
   getRouteData (\<lambda>origin destination. Resolved (example_directions [[example_walk], []]))
     example_location example_location = None \<and>
   error (handleCalculate (calculate (\<lambda>origin destination. Resolved zero_results) (\<lambda>prompt. Threw))
            example_state) = None"
proof -
  have w: "without_itinerary zero_results"
    "without_itinerary (example_directions [[example_walk], []])"
    by (simp_all add: without_itinerary_def no_transit_details_def example_defs)
  have l: "startLocation example_state = Some example_location"
    "endLocation example_state = Some example_location"
    by (simp_all add: example_state_def)
  show ?thesis
    using getRouteData_without_itinerary [where fetch_directions = "\<lambda>origin destination. Resolved zero_results"
        and start = example_location and finish = example_location and st = example_state
        and generateContent = "\<lambda>prompt. Threw", OF _ w(1)]
      getRouteData_without_itinerary [where fetch_directions =
        "\<lambda>origin destination. Resolved (example_directions [[example_walk], []])"
        and start = example_location and finish = example_location, OF _ w(2)] l
    by simp
qed

text \<open>
  An empty sequence is not what comes back: for an answer with status
  \<^verbatim>\<open>ZERO_RESULTS\<close> and no route the value returned is \<^verbatim>\<open>null\<close>.
\<close>

theorem getRouteData_null_counterexample:
  "getRouteData (\<lambda>origin destination. Resolved zero_results) example_location example_location = None \<and>
   getRouteData (\<lambda>origin destination. Resolved zero_results) example_location example_location \<noteq> Some []"
  by (simp add: getRouteData_def getRouteData_try_def zero_results_def)

lemma and_then_deref:
  "and_then (deref v) f = (case v of None \<Rightarrow> Inl TypeError | Some x \<Rightarrow> f x)"
  by (simp add: and_then_def deref_def split: option.splits)

lemma step_body_broken:
  assumes "i < length steps" and "step_broken (steps ! i)"
  shows "step_body steps i acc = Inl TypeError"
proof -
  from assms(2) obtain transit where t: "step_transit_details (steps ! i) = Some transit"
    and bad: "Option.bind (td_line transit) line_vehicle = None \<or>
      td_departure_stop transit = None \<or> td_arrival_stop transit = None \<or>
      step_distance (steps ! i) = None"
    by (auto simp: step_broken_def split: option.splits)
  show ?thesis
  proof (cases "Option.bind (td_line transit) line_vehicle")
    case None
    show ?thesis
    proof (cases "td_line transit")
      case no_line: None
      then show ?thesis by (simp add: step_body_def t and_then_deref)
    next
      case (Some line)
      with None have "line_vehicle line = None" by simp
      with Some show ?thesis by (simp add: step_body_def t and_then_deref)
    qed
  next
    case vehicle: (Some vehicle)
    then obtain line where l: "td_line transit = Some line" "line_vehicle line = Some vehicle"
      by (auto split: Option.bind_splits)
    show ?thesis
    proof (cases "td_departure_stop transit")
      case None
      then show ?thesis by (simp add: step_body_def t l and_then_deref)
    next
      case departure: (Some departure)
      show ?thesis
      proof (cases "td_arrival_stop transit")
        case None
        then show ?thesis by (simp add: step_body_def t l departure and_then_deref)
      next
        case arrival: (Some arrival)
        with bad vehicle departure have "step_distance (steps ! i) = None" by simp
        then show ?thesis by (simp add: step_body_def t l departure arrival and_then_deref)
      qed
    qed
  qed
qed

lemma steps_loop_broken:
  assumes "i \<le> j" and "j < length steps" and "step_broken (steps ! j)"
  shows "\<exists>e. steps_loop steps i acc = Inl e"
  using assms
proof (induction steps i acc rule: steps_loop.induct)
  case (1 steps i acc)
  have lt: "i < length steps" using "1.prems" by simp
  show ?case
  proof (cases "step_body steps i acc")
    case (Inl e)
    then show ?thesis using lt by (subst steps_loop.simps) simp
  next
    case (Inr acc')
    then have "i \<noteq> j" using step_body_broken [OF lt, of acc] "1.prems"(3) by auto
    then have "i + 1 \<le> j" using "1.prems"(1) by simp
    from "1.IH" [OF lt Inr this "1.prems"(2,3)]
    show ?thesis using lt Inr by (subst steps_loop.simps) simp
  qed
qed

lemma legs_loop_broken:
  assumes "leg \<in> set legs" and "leg_steps leg = Some steps" and "step \<in> set steps"
    and "step_broken step"
  shows "\<exists>e. legs_loop legs acc = Inl e"
  using assms(1)
proof (induction legs arbitrary: acc)
  case Nil
  then show ?case by simp
next
  case (Cons l legs)
  show ?case
  proof (cases "leg_steps l")
    case None
    then show ?thesis by simp
  next
    case (Some ss)
    show ?thesis
    proof (cases "steps_loop ss 0 acc")
      case (Inl e)
      then show ?thesis using Some by simp
    next
      case (Inr acc')
      have "l \<noteq> leg"
      proof
        assume "l = leg"
        then have "ss = steps" using Some assms(2) by simp
        moreover obtain j where "j < length steps" "steps ! j = step"
          using assms(3) by (auto simp: in_set_conv_nth)
        ultimately obtain e where "steps_loop ss 0 acc = Inl e"
          using steps_loop_broken [of 0 j steps acc] assms(4) by auto
        with Inr show False by simp
      qed
      then have "leg \<in> set legs" using Cons.prems by simp
      from Cons.IH [OF this, of acc'] show ?thesis using Some Inr by simp
    qed
  qed
qed

text \<open>
  C7, as the code has it. \<^verbatim>\<open>getRouteData\<close> returns for every answer: \<^verbatim>\<open>null\<close> or a
  sequence that is not empty. A step with transit details that lacks its line, vehicle,
  a stop or its distance object is not skipped: whenever the first route has such a
  step, in any leg, the error thrown at it (or an earlier one) ends the pass and the
  value returned is \<^verbatim>\<open>null\<close>, whatever the other steps are.
\<close>

theorem getRouteData_aborts:
  "(getRouteData fetch_directions origin destination = None \<or>
    (\<exists>segments. getRouteData fetch_directions origin destination = Some segments \<and> segments \<noteq> [])) \<and>
   (fetch_directions origin destination = Resolved directions \<and>
    dir_routes directions = Some (route # others) \<and> route_legs route = Some legs \<and>
    leg \<in> set legs \<and> leg_steps leg = Some steps \<and> step \<in> set steps \<and> step_broken step \<longrightarrow>
      getRouteData fetch_directions origin destination = None)"
proof -
  have "getRouteData fetch_directions origin destination = None \<or>
    (\<exists>segments. getRouteData fetch_directions origin destination = Some segments \<and> segments \<noteq> [])"
    by (auto simp: getRouteData_def getRouteData_try_def and_then_def deref_def
        split: sum.splits awaited.splits option.splits if_splits)
  moreover have "getRouteData fetch_directions origin destination = None"
    if h: "fetch_directions origin destination = Resolved directions"
      "dir_routes directions = Some (route # others)" "route_legs route = Some legs"
      "leg \<in> set legs" "leg_steps leg = Some steps" "step \<in> set steps" "step_broken step"
  proof -
    obtain e where "legs_loop legs [] = Inl e"
      using legs_loop_broken [OF h(4,5,6,7), of "[]"] by blast
    then show ?thesis
      using h(1,2,3)
      by (simp add: getRouteData_def getRouteData_try_def and_then_def deref_def)
  qed
  ultimately show ?thesis by blast
qed

theorem getRouteData_aborts_witness:
  "getRouteData (\<lambda>origin destination. Resolved (example_directions [[example_ride], [example_broken, example_ride]]))
     example_location example_location = None"
proof -
  let ?f = "\<lambda>origin destination :: Location.
    Resolved (example_directions [[example_ride], [example_broken, example_ride]])"
  have "?f example_location example_location =
      Resolved (example_directions [[example_ride], [example_broken, example_ride]]) \<and>
    dir_routes (example_directions [[example_ride], [example_broken, example_ride]]) =
      Some (\<lparr>route_legs = Some (example_legs [[example_ride], [example_broken, example_ride]])\<rparr> # []) \<and>
    route_legs \<lparr>route_legs = Some (example_legs [[example_ride], [example_broken, example_ride]])\<rparr> =
      Some (example_legs [[example_ride], [example_broken, example_ride]]) \<and>
    \<lparr>leg_steps = Some [example_broken, example_ride]\<rparr> \<in>
      set (example_legs [[example_ride], [example_broken, example_ride]]) \<and>
    leg_steps \<lparr>leg_steps = Some [example_broken, example_ride]\<rparr> = Some [example_broken, example_ride] \<and>
    example_broken \<in> set [example_broken, example_ride] \<and> step_broken example_broken"
    by (simp add: example_directions_def example_legs_def step_broken_def example_broken_def
        example_ride_def)
  with getRouteData_aborts [where fetch_directions = ?f and origin = example_location
      and destination = example_location]
  show ?thesis by blast
qed

text \<open>
  Skipping is not what happens: a leg with a step whose transit details have no line,
  followed by a complete transit step, gives \<^verbatim>\<open>null\<close>; were the first step skipped,
  the second would give its segment, as it does alone.
\<close>

theorem getRouteData_skip_counterexample:
  "getRouteData (\<lambda>origin destination. Resolved (example_directions [[example_broken, example_ride]]))
     example_location example_location = None \<and>
   getRouteData (\<lambda>origin destination. Resolved (example_directions [[example_ride]]))
     example_location example_location = Some [example_segment None None]"
  by (simp add: getRouteData_eval example_defs)

end
